theory Spec2Isabelle
  imports Complex_Main "HOL-Library.Word" "HOL-Library.Log_Nat"
begin

section \<open>Constants of \<open>i3d.py\<close>\<close>

definition DATA_DIR :: string where
  "DATA_DIR = ''data/raw_frames''"

definition ANNOTATIONS_DIR :: string where
  "ANNOTATIONS_DIR = ''data/cvb_in_ava_format''"

definition TRAIN_CSV :: string where
  "TRAIN_CSV = ''ava_train_set.csv''"

definition VAL_CSV :: string where
  "VAL_CSV = ''ava_val_set.csv''"

definition IMG_HEIGHT :: nat where
  "IMG_HEIGHT = 224"

definition IMG_WIDTH :: nat where
  "IMG_WIDTH = 224"

definition NUM_CLASSES :: nat where
  "NUM_CLASSES = 11"

definition EPOCHS :: nat where
  "EPOCHS = 1"

section \<open>Python values the script relies on\<close>

text \<open>
  Exceptions are values: every function that can raise returns \<open>error + 'a\<close>, with
  \<open>Inl\<close> the exception. The script has no \<open>try\<close>, so an exception raised by a
  library call ends the enclosing function.
\<close>

datatype error =
  IndexError | ValueError | OverflowError | TypeError | RuntimeError | ZeroDivisionError

text \<open>
  A floating-point cell of the annotation table. pandas stores an empty cell of a float
  column as NaN. A finite double is the rational it denotes.
\<close>

datatype pyfloat = Finite rat | PosInf | NegInf | NaN

text \<open>
  The double nearest to a rational, ties going to the even significand: with \<open>e\<close> the
  exponent of the value (not below that of the subnormal numbers), the value is rounded
  to a multiple of \<open>2^(e - 52)\<close>.
\<close>

definition pow2 :: "int \<Rightarrow> rat" where
  "pow2 k = (if 0 \<le> k then 2 ^ nat k else 1 / 2 ^ nat (- k))"

definition floor_log2 :: "rat \<Rightarrow> int" where
  "floor_log2 q =
     (case quotient_of q of
        (a, b) \<Rightarrow> let k = bitlen a - bitlen b in if pow2 k \<le> q then k else k - 1)"

definition round_half_even :: "rat \<Rightarrow> int" where
  "round_half_even x =
     (let f = \<lfloor>x\<rfloor>; d = x - of_int f
      in if d < 1 / 2 then f else if 1 / 2 < d then f + 1 else if even f then f else f + 1)"

definition round_double :: "rat \<Rightarrow> rat" where
  "round_double q =
     (if q = 0 then 0
      else let e = max (floor_log2 \<bar>q\<bar>) (- 1022); ulp = pow2 (e - 52)
           in sgn q * of_int (round_half_even (\<bar>q\<bar> / ulp)) * ulp)"

text \<open>
  A magnitude of \<open>2^1024 - 2^970\<close> or more rounds to infinity. \<open>float_of_exact\<close> is the
  floating-point result of an operation whose exact result is \<open>q\<close>.
\<close>

definition float_overflow :: rat where
  "float_overflow = 2 ^ 1024 - 2 ^ 970"

definition float_of_exact :: "rat \<Rightarrow> pyfloat" where
  "float_of_exact q =
     (if float_overflow \<le> q then PosInf
      else if q \<le> - float_overflow then NegInf
      else Finite (round_double q))"

text \<open>
  \<open>x * n\<close> for a float \<open>x\<close> and an integer \<open>n\<close> (here always 30, which is a double
  itself).
\<close>

fun float_mul_int :: "pyfloat \<Rightarrow> int \<Rightarrow> pyfloat" where
  "float_mul_int (Finite q) n = float_of_exact (q * of_int n)"
| "float_mul_int PosInf n = (if 0 < n then PosInf else if n < 0 then NegInf else NaN)"
| "float_mul_int NegInf n = (if 0 < n then NegInf else if n < 0 then PosInf else NaN)"
| "float_mul_int NaN n = NaN"

text \<open>\<open>int(x)\<close> on a float truncates toward zero and raises on NaN and on infinities.\<close>

fun py_int :: "pyfloat \<Rightarrow> error + int" where
  "py_int (Finite q) = Inr (if 0 \<le> q then \<lfloor>q\<rfloor> else \<lceil>q\<rceil>)"
| "py_int PosInf = Inl OverflowError"
| "py_int NegInf = Inl OverflowError"
| "py_int NaN = Inl ValueError"

subsection \<open>Formatting integers\<close>

definition digit_char :: "nat \<Rightarrow> char" where
  "digit_char d = ''0123456789'' ! d"

fun str_nat :: "nat \<Rightarrow> string" where
  "str_nat n = (if n < 10 then [digit_char n] else str_nat (n div 10) @ [digit_char (n mod 10)])"

declare str_nat.simps [simp del]

text \<open>\<open>str(i)\<close>, as an f-string field \<open>{i}\<close> prints an integer.\<close>

definition str_int :: "int \<Rightarrow> string" where
  "str_int i = (if i < 0 then CHR ''-'' # str_nat (nat (- i)) else str_nat (nat i))"

text \<open>The field \<open>{n:05d}\<close> for a non-negative \<open>n\<close>: zero-padded to at least five digits.\<close>

definition fmt_05d :: "nat \<Rightarrow> string" where
  "fmt_05d n = (let s = str_nat n in replicate (5 - length s) CHR ''0'' @ s)"

subsection \<open>\<open>os.path.join\<close> (POSIX)\<close>

text \<open>
  A component that starts with \<open>/\<close> discards everything before it; otherwise components
  are joined by one \<open>/\<close>, none being added after a path that is empty or ends in \<open>/\<close>.
\<close>

fun os_path_join :: "string \<Rightarrow> string list \<Rightarrow> string" where
  "os_path_join path [] = path"
| "os_path_join path (b # bs) =
     os_path_join
       (if take 1 b = ''/'' then b
        else if path = [] \<or> last path = CHR ''/'' then path @ b
        else path @ ''/'' @ b) bs"

section \<open>Tensors\<close>

text \<open>
  A tensor is its shape and its elements by index. An index outside the shape reads the
  default element, so that two tensors with the same elements are equal.
\<close>

datatype 'a tensor = Tensor (shape: "nat list") (elems: "nat list \<Rightarrow> 'a")

definition torch_zeros :: "nat list \<Rightarrow> ('a::zero) tensor" where
  "torch_zeros s = Tensor s (\<lambda>ix. 0)"

text \<open>
  \<open>torch.stack\<close> of a list of tensors: all must have one shape, and the list must not be
  empty; the result has one more leading dimension, the position in the list.
\<close>

definition stack_elems :: "('a::zero) tensor list \<Rightarrow> nat list \<Rightarrow> 'a" where
  "stack_elems ts ix =
     (case ix of [] \<Rightarrow> 0 | i # r \<Rightarrow> if i < length ts then elems (ts ! i) r else 0)"

definition torch_stack :: "('a::zero) tensor list \<Rightarrow> error + 'a tensor" where
  "torch_stack ts =
     (case ts of
        [] \<Rightarrow> Inl RuntimeError
      | t # rest \<Rightarrow>
          if list_all (\<lambda>u. shape u = shape t) rest
          then Inr (Tensor (length ts # shape t) (stack_elems ts))
          else Inl RuntimeError)"

text \<open>The slice \<open>t[i]\<close> of a tensor along its first dimension.\<close>

definition select0 :: "'a tensor \<Rightarrow> nat \<Rightarrow> 'a tensor" where
  "select0 t i = Tensor (tl (shape t)) (\<lambda>r. elems t (i # r))"

section \<open>The file system and \<open>read_image\<close>\<close>

text \<open>
  A path that exists holds either a file that \<open>read_image\<close> decodes, to an 8-bit tensor
  of shape \<open>[channels, height, width]\<close>, or anything else (a directory, a truncated or
  non-image file), on which \<open>read_image\<close> raises.
\<close>

record image =
  channels :: nat
  height :: nat
  width :: nat
  pixels :: "nat \<Rightarrow> nat \<Rightarrow> nat \<Rightarrow> 8 word"

datatype fs_entry = ImageFile image | OtherFile

type_synonym filesystem = "string \<Rightarrow> fs_entry option"

definition os_path_exists :: "filesystem \<Rightarrow> string \<Rightarrow> bool" where
  "os_path_exists fs p = (fs p \<noteq> None)"

definition read_image :: "filesystem \<Rightarrow> string \<Rightarrow> error + 8 word tensor" where
  "read_image fs p =
     (case fs p of
        Some (ImageFile im) \<Rightarrow>
          Inr (Tensor [channels im, height im, width im]
                 (\<lambda>ix. case ix of [c, y, x] \<Rightarrow> pixels im c y x | _ \<Rightarrow> 0))
      | _ \<Rightarrow> Inl RuntimeError)"

section \<open>The transforms\<close>

text \<open>
  Single-precision arithmetic on pixels is not modelled: the three element-wise
  operations the script applies are parameters. \<open>to_unit\<close> is \<open>x.float() / 255.0\<close> on
  one byte, \<open>interpolate\<close> gives the elements of a resized tensor from the source, and
  \<open>normalize_px c\<close> is \<open>(x - mean[c]) / std[c]\<close> for channel \<open>c\<close>.
\<close>

record 'f pixel_ops =
  to_unit :: "8 word \<Rightarrow> 'f"
  interpolate :: "nat list \<Rightarrow> (nat list \<Rightarrow> 'f) \<Rightarrow> nat \<times> nat \<Rightarrow> nat list \<Rightarrow> 'f"
  normalize_px :: "nat \<Rightarrow> 'f \<Rightarrow> 'f"

text \<open>
  \<open>transforms.Resize((h, w))\<close> maps a tensor \<open>[C, H, W]\<close> or \<open>[N, C, H, W]\<close> to one
  with the last two sizes replaced by \<open>h\<close> and \<open>w\<close>. A tensor of fewer than two
  dimensions is not an image (\<open>TypeError\<close>); one of two, or of more than four, is
  refused with \<open>ValueError\<close>.
\<close>

definition Resize :: "'f pixel_ops \<Rightarrow> nat \<times> nat \<Rightarrow> 'f tensor \<Rightarrow> error + 'f tensor" where
  "Resize ops hw t =
     (let s = shape t in
      if length s < 2 then Inl TypeError
      else if length s = 2 \<or> 4 < length s then Inl ValueError
      else Inr (Tensor (take (length s - 2) s @ [fst hw, snd hw])
                  (interpolate ops s (elems t) hw)))"

text \<open>
  \<open>transforms.Normalize(mean, std)\<close> with three-element \<open>mean\<close> and \<open>std\<close>: a tensor
  of fewer than two dimensions is not an image (\<open>TypeError\<close>), one of two is refused
  with \<open>ValueError\<close>, and the in-place broadcast against \<open>mean[:, None, None]\<close> needs
  exactly three channels.
\<close>

definition Normalize :: "'f pixel_ops \<Rightarrow> 'f tensor \<Rightarrow> error + 'f tensor" where
  "Normalize ops t =
     (let s = shape t in
      if length s < 2 then Inl TypeError
      else if length s < 3 then Inl ValueError
      else if s ! (length s - 3) \<noteq> 3 then Inl RuntimeError
      else Inr (Tensor s (\<lambda>ix. normalize_px ops (ix ! (length ix - 3)) (elems t ix))))"

fun Compose :: "('a \<Rightarrow> error + 'a) list \<Rightarrow> 'a \<Rightarrow> error + 'a" where
  "Compose [] x = Inr x"
| "Compose (t # ts) x = (case t x of Inl e \<Rightarrow> Inl e | Inr y \<Rightarrow> Compose ts y)"

text \<open>The module-level \<open>transform\<close>.\<close>

definition transform :: "'f pixel_ops \<Rightarrow> 'f tensor \<Rightarrow> error + 'f tensor" where
  "transform ops = Compose [Resize ops (IMG_HEIGHT, IMG_WIDTH), Normalize ops]"

section \<open>\<open>VideoDataset\<close>\<close>

text \<open>
  A cell of the \<open>video_name\<close> column, for which \<open>read_csv\<close> is given no dtype: a
  string, or a number when pandas infers a numeric column (or NaN for an empty cell).
\<close>

datatype cell = Str string | Num pyfloat

text \<open>
  \<open>behavior_category\<close> is a 64-bit integer in pandas; \<open>__getitem__\<close> converts it to a
  Python integer before subtracting, so nothing wraps around.
\<close>

record row =
  video_name :: cell
  keyframe :: pyfloat
  x1 :: pyfloat
  y1 :: pyfloat
  x2 :: pyfloat
  y2 :: pyfloat
  behavior_category :: int
  animal_category :: string

record 'f VideoDataset =
  annotations :: "row list"
  self_transform :: "('f tensor \<Rightarrow> error + 'f tensor) option"

text \<open>
  \<open>pd.read_csv(annotations_file, skiprows=1, names=[...], dtype={...})\<close>: the file is
  the sequence of its lines. The first line is dropped unread, blank lines are skipped
  (\<open>skip_blank_lines\<close> is on by default), and each of the others is converted to a row
  by \<open>parse\<close>, which raises when a cell does not convert to its dtype.
\<close>

definition data_lines :: "('l \<Rightarrow> bool) \<Rightarrow> 'l list \<Rightarrow> 'l list" where
  "data_lines blank lines = filter (\<lambda>l. \<not> blank l) (drop 1 lines)"

fun parse_rows :: "('l \<Rightarrow> error + row) \<Rightarrow> 'l list \<Rightarrow> error + row list" where
  "parse_rows parse [] = Inr []"
| "parse_rows parse (l # ls) =
     (case parse l of
        Inl e \<Rightarrow> Inl e
      | Inr r \<Rightarrow> (case parse_rows parse ls of Inl e \<Rightarrow> Inl e | Inr rs \<Rightarrow> Inr (r # rs)))"

definition read_csv ::
  "('l \<Rightarrow> error + row) \<Rightarrow> ('l \<Rightarrow> bool) \<Rightarrow> 'l list \<Rightarrow> error + row list" where
  "read_csv parse blank lines = parse_rows parse (data_lines blank lines)"

text \<open>\<open>Series.min()\<close> and \<open>max()\<close> print as \<open>nan\<close> on an empty column.\<close>

definition str_min :: "int list \<Rightarrow> string" where
  "str_min xs = (case xs of [] \<Rightarrow> ''nan'' | x # r \<Rightarrow> str_int (fold min r x))"

definition str_max :: "int list \<Rightarrow> string" where
  "str_max xs = (case xs of [] \<Rightarrow> ''nan'' | x # r \<Rightarrow> str_int (fold max r x))"

text \<open>\<open>__init__\<close> returns the line it prints and the dataset.\<close>

definition VideoDataset_init ::
  "('l \<Rightarrow> error + row) \<Rightarrow> ('l \<Rightarrow> bool) \<Rightarrow> 'l list
     \<Rightarrow> ('f tensor \<Rightarrow> error + 'f tensor) option
     \<Rightarrow> error + (string list \<times> 'f VideoDataset)" where
  "VideoDataset_init parse blank annotations_file tr =
     (case read_csv parse blank annotations_file of
        Inl e \<Rightarrow> Inl e
      | Inr rows \<Rightarrow>
          let labels = map behavior_category rows in
          Inr ([''Label range: '' @ str_min labels @ '' to '' @ str_max labels],
               \<lparr>annotations = rows, self_transform = tr\<rparr>))"

definition len :: "'f VideoDataset \<Rightarrow> nat" where
  "len ds = length (annotations ds)"

text \<open>\<open>annotations.iloc[idx, _]\<close>: a negative index counts from the end.\<close>

definition iloc :: "row list \<Rightarrow> int \<Rightarrow> error + row" where
  "iloc rows idx =
     (let n = int (length rows); j = (if idx < 0 then n + idx else idx)
      in if 0 \<le> j \<and> j < n then Inr (rows ! nat j) else Inl IndexError)"

text \<open>
  The path probed at loop counter \<open>i\<close>; \<open>os.path.join\<close> raises when \<open>video_name\<close> is
  not a string.
\<close>

definition frame_path :: "cell \<Rightarrow> nat \<Rightarrow> error + string" where
  "frame_path name i =
     (case name of
        Str v \<Rightarrow> Inr (os_path_join DATA_DIR [v, ''img_'' @ fmt_05d (i + 1) @ ''.jpg''])
      | Num x \<Rightarrow> Inl TypeError)"

text \<open>What the body appends to \<open>frames\<close> for the path it probes.\<close>

definition frame_of ::
  "'f pixel_ops \<Rightarrow> ('f tensor \<Rightarrow> error + 'f tensor) option \<Rightarrow> filesystem \<Rightarrow> string
     \<Rightarrow> error + ('f::zero) tensor" where
  "frame_of ops tr fs p =
     (if os_path_exists fs p then
        (case read_image fs p of
           Inl e \<Rightarrow> Inl e
         | Inr raw \<Rightarrow>
             let image = map_tensor (to_unit ops) raw in
             (case tr of None \<Rightarrow> Inr image | Some t \<Rightarrow> t image))
      else Inr (torch_zeros [3, IMG_HEIGHT, IMG_WIDTH]))"

text \<open>The body of the loop at counter \<open>i\<close>: the tensor appended to \<open>frames\<close>.\<close>

definition frame_at ::
  "'f pixel_ops \<Rightarrow> ('f tensor \<Rightarrow> error + 'f tensor) option \<Rightarrow> filesystem \<Rightarrow> cell
     \<Rightarrow> nat \<Rightarrow> error + ('f::zero) tensor" where
  "frame_at ops tr fs name i =
     (case frame_path name i of Inl e \<Rightarrow> Inl e | Inr p \<Rightarrow> frame_of ops tr fs p)"

text \<open>
  The loop \<open>for i in range(450)\<close>, appending to \<open>frames\<close>. Next to \<open>frames\<close> the
  state holds the paths probed so far, that is, passed to \<open>os.path.exists\<close>; the loop
  returns them with its result.
\<close>

fun load_frames ::
  "'f pixel_ops \<Rightarrow> ('f tensor \<Rightarrow> error + 'f tensor) option \<Rightarrow> filesystem \<Rightarrow> cell
     \<Rightarrow> nat list \<Rightarrow> string list \<times> ('f::zero) tensor list
     \<Rightarrow> string list \<times> (error + 'f tensor list)" where
  "load_frames ops tr fs name [] (probed, frames) = (probed, Inr frames)"
| "load_frames ops tr fs name (i # is) (probed, frames) =
     (case frame_path name i of
        Inl e \<Rightarrow> (probed, Inl e)
      | Inr p \<Rightarrow>
          (case frame_at ops tr fs name i of
             Inl e \<Rightarrow> (probed @ [p], Inl e)
           | Inr f \<Rightarrow> load_frames ops tr fs name is (probed @ [p], frames @ [f])))"

text \<open>
  Lines 60 to 75 of \<open>__getitem__\<close>, which build the clip from the row's \<open>video_name\<close>
  and \<open>keyframe\<close>: the conversion of the keyframe to a frame index (whose value is
  not used afterwards), the loop and \<open>torch.stack\<close>. \<open>clip_of\<close> gives the paths probed
  and the clip or the exception; \<open>getitem_clip\<close> is the latter.
\<close>

definition clip_of ::
  "'f pixel_ops \<Rightarrow> ('f tensor \<Rightarrow> error + 'f tensor) option \<Rightarrow> filesystem \<Rightarrow> cell
     \<Rightarrow> pyfloat \<Rightarrow> string list \<times> (error + ('f::zero) tensor)" where
  "clip_of ops tr fs name kf =
     (case py_int (float_mul_int kf 30) of
        Inl e \<Rightarrow> ([], Inl e)
      | Inr keyframe_index \<Rightarrow>
          (case load_frames ops tr fs name [0..<450] ([], []) of
             (probed, Inl e) \<Rightarrow> (probed, Inl e)
           | (probed, Inr frames) \<Rightarrow> (probed, torch_stack frames)))"

definition getitem_clip ::
  "'f pixel_ops \<Rightarrow> ('f tensor \<Rightarrow> error + 'f tensor) option \<Rightarrow> filesystem \<Rightarrow> cell
     \<Rightarrow> pyfloat \<Rightarrow> error + ('f::zero) tensor" where
  "getitem_clip ops tr fs name kf = snd (clip_of ops tr fs name kf)"

text \<open>The paths that \<open>__getitem__\<close> probes, in the order of the calls.\<close>

definition getitem_probed ::
  "'f pixel_ops \<Rightarrow> ('f::zero) VideoDataset \<Rightarrow> filesystem \<Rightarrow> int \<Rightarrow> string list" where
  "getitem_probed ops ds fs idx =
     (case iloc (annotations ds) idx of
        Inl e \<Rightarrow> []
      | Inr r \<Rightarrow> fst (clip_of ops (self_transform ds) fs (video_name r) (keyframe r)))"

text \<open>
  \<open>__getitem__\<close> returns the lines it prints and either the exception or the pair
  \<open>(clip, label)\<close>. The three reads \<open>iloc[idx, 0]\<close>, \<open>iloc[idx, 1]\<close> and \<open>iloc[idx, 6]\<close>
  address one row and fail together.
\<close>

definition getitem ::
  "'f pixel_ops \<Rightarrow> 'f VideoDataset \<Rightarrow> filesystem \<Rightarrow> int
     \<Rightarrow> string list \<times> (error + (('f::zero) tensor \<times> int))" where
  "getitem ops ds fs idx =
     (case iloc (annotations ds) idx of
        Inl e \<Rightarrow> ([], Inl e)
      | Inr r \<Rightarrow>
          (case getitem_clip ops (self_transform ds) fs (video_name r) (keyframe r) of
             Inl e \<Rightarrow> ([], Inl e)
           | Inr clip \<Rightarrow>
               let label = behavior_category r - 2 in
               (if label < 0 \<or> int NUM_CLASSES \<le> label
                then [''Invalid label '' @ str_int label @ '' at index '' @ str_int idx]
                else [],
                Inr (clip, label))))"

text \<open>
  \<open>load_datasets\<close> builds both datasets with the module-level \<open>transform\<close> and wraps
  them in loaders; \<open>files\<close> gives the lines of the file at a path. The training loader
  shuffles, and its sampler raises \<open>ValueError\<close> on an empty dataset. Returned are the
  lines printed, and the exception or the two datasets that the loaders wrap (the
  batching of \<open>DataLoader\<close> is not modelled).
\<close>

definition load_datasets ::
  "'f pixel_ops \<Rightarrow> ('l \<Rightarrow> error + row) \<Rightarrow> ('l \<Rightarrow> bool) \<Rightarrow> (string \<Rightarrow> 'l list)
     \<Rightarrow> string list \<times> (error + ('f VideoDataset \<times> 'f VideoDataset))" where
  "load_datasets ops parse blank files =
     (case VideoDataset_init parse blank (files (os_path_join ANNOTATIONS_DIR [TRAIN_CSV]))
             (Some (transform ops)) of
        Inl e \<Rightarrow> ([], Inl e)
      | Inr (out1, train_dataset) \<Rightarrow>
          (case VideoDataset_init parse blank (files (os_path_join ANNOTATIONS_DIR [VAL_CSV]))
                  (Some (transform ops)) of
             Inl e \<Rightarrow> (out1, Inl e)
           | Inr (out2, val_dataset) \<Rightarrow>
               if len train_dataset = 0 then (out1 @ out2, Inl ValueError)
               else (out1 @ out2, Inr (train_dataset, val_dataset))))"

section \<open>The \<open>I3D\<close> model\<close>

text \<open>
  \<open>x.permute(dims)\<close>: \<open>dims\<close> must list every dimension of \<open>x\<close> once; dimension \<open>k\<close> of
  the result is dimension \<open>dims[k]\<close> of \<open>x\<close>.
\<close>

definition index_of :: "'a \<Rightarrow> 'a list \<Rightarrow> nat" where
  "index_of d dims = length (takeWhile (\<lambda>x. x \<noteq> d) dims)"

definition permute :: "nat list \<Rightarrow> 'a tensor \<Rightarrow> error + 'a tensor" where
  "permute dims t =
     (let s = shape t in
      if sort dims \<noteq> [0..<length s] then Inl RuntimeError
      else Inr (Tensor (map (\<lambda>d. s ! d) dims)
                  (\<lambda>ix. elems t (map (\<lambda>d. ix ! index_of d dims) [0..<length s]))))"

text \<open>
  A linear layer is its two sizes and the function from the elements of its input to
  those of its output (weights and bias, whose arithmetic is not modelled). It maps
  \<open>[..., in_features]\<close> to \<open>[..., out_features]\<close>.
\<close>

record 'f Linear =
  in_features :: nat
  out_features :: nat
  lin_fun :: "(nat list \<Rightarrow> 'f) \<Rightarrow> nat list \<Rightarrow> 'f"

definition Linear_forward :: "'f Linear \<Rightarrow> 'f tensor \<Rightarrow> error + 'f tensor" where
  "Linear_forward l x =
     (if shape x = [] \<or> last (shape x) \<noteq> in_features l then Inl RuntimeError
      else Inr (Tensor (butlast (shape x) @ [out_features l]) (lin_fun l (elems x))))"

text \<open>
  \<open>nn.Linear(a, b)\<close> makes a layer of these sizes with newly initialised parameters,
  \<open>init a b\<close>.
\<close>

definition nn_Linear ::
  "(nat \<Rightarrow> nat \<Rightarrow> (nat list \<Rightarrow> 'f) \<Rightarrow> nat list \<Rightarrow> 'f) \<Rightarrow> nat \<Rightarrow> nat \<Rightarrow> 'f Linear" where
  "nn_Linear init a b = \<lparr>in_features = a, out_features = b, lin_fun = init a b\<rparr>"

text \<open>
  The network that torchvision's \<open>r3d_18\<close> returns: everything before the last layer
  (\<open>features\<close>, from \<open>[batch, channels, frames, height, width]\<close> to
  \<open>[batch, fc.in_features]\<close>) and the last layer \<open>fc\<close>.
\<close>

record 'f VideoResNet =
  features :: "'f tensor \<Rightarrow> error + 'f tensor"
  fc :: "'f Linear"

definition VideoResNet_forward :: "'f VideoResNet \<Rightarrow> 'f tensor \<Rightarrow> error + 'f tensor" where
  "VideoResNet_forward m x =
     (case features m x of Inl e \<Rightarrow> Inl e | Inr h \<Rightarrow> Linear_forward (fc m) h)"

record 'f I3D =
  model :: "'f VideoResNet"

text \<open>
  \<open>I3D.__init__\<close>; \<open>r3d_18\<close> is torchvision's constructor, called with the name of the
  weights to load.
\<close>

definition I3D_init ::
  "(string \<Rightarrow> 'f VideoResNet) \<Rightarrow> (nat \<Rightarrow> nat \<Rightarrow> (nat list \<Rightarrow> 'f) \<Rightarrow> nat list \<Rightarrow> 'f) \<Rightarrow> nat
     \<Rightarrow> 'f I3D" where
  "I3D_init r3d_18 init num_classes =
     (let m = r3d_18 ''KINETICS400_V1'' in
      \<lparr>model = m\<lparr>fc := nn_Linear init (in_features (fc m)) num_classes\<rparr>\<rparr>)"

definition I3D_forward :: "'f I3D \<Rightarrow> 'f tensor \<Rightarrow> error + 'f tensor" where
  "I3D_forward self x =
     (case permute [0, 2, 1, 3, 4] x of
        Inl e \<Rightarrow> Inl e
      | Inr x' \<Rightarrow> VideoResNet_forward (model self) x')"

section \<open>The training and validation loops of \<open>main\<close>\<close>

text \<open>
  Double-precision arithmetic on the metrics is not modelled: addition, multiplication,
  division by a non-zero number and the conversion of an integer are parameters.
\<close>

record 'f float_ops =
  fl_add :: "'f \<Rightarrow> 'f \<Rightarrow> 'f"
  fl_mul :: "'f \<Rightarrow> 'f \<Rightarrow> 'f"
  fl_div :: "'f \<Rightarrow> 'f \<Rightarrow> 'f"
  fl_of_int :: "int \<Rightarrow> 'f"

text \<open>
  What a loop sees of one batch: for each sample the row of \<open>outputs\<close> and its label,
  and \<open>loss.item()\<close>. The network, the criterion and the optimizer produce these; the
  loops only read them. A loader yields \<open>None\<close> where \<open>clips is None\<close>.
\<close>

record ('g, 'f) batch =
  samples :: "('g list \<times> int) list"
  loss_item :: 'f

type_synonym ('g, 'f) loader = "('g, 'f) batch option list"

text \<open>
  \<open>predicted.eq(labels).sum().item()\<close>, with \<open>_, predicted = outputs.max(1)\<close>;
  \<open>argmax\<close> is the index that \<open>max\<close> returns for one row.
\<close>

definition count_correct :: "('g list \<Rightarrow> nat) \<Rightarrow> ('g list \<times> int) list \<Rightarrow> int" where
  "count_correct argmax smp = int (length (filter (\<lambda>(out, label). int (argmax out) = label) smp))"

text \<open>The training loop over the loader, on \<open>(running_loss, correct, total)\<close>.\<close>

fun train_loop ::
  "'f float_ops \<Rightarrow> ('g list \<Rightarrow> nat) \<Rightarrow> ('g, 'f) loader \<Rightarrow> 'f \<times> int \<times> int \<Rightarrow> 'f \<times> int \<times> int" where
  "train_loop ops argmax [] st = st"
| "train_loop ops argmax (None # rest) st = train_loop ops argmax rest st"
| "train_loop ops argmax (Some b # rest) (running_loss, correct, total_n) =
     train_loop ops argmax rest
       (fl_add ops running_loss (loss_item b),
        correct + count_correct argmax (samples b),
        total_n + int (length (samples b)))"

text \<open>The validation loop, on \<open>(val_loss, correct, total)\<close>.\<close>

fun val_loop ::
  "'f float_ops \<Rightarrow> ('g list \<Rightarrow> nat) \<Rightarrow> ('g, 'f) loader \<Rightarrow> 'f \<times> int \<times> int \<Rightarrow> 'f \<times> int \<times> int" where
  "val_loop ops argmax [] st = st"
| "val_loop ops argmax (None # rest) st = val_loop ops argmax rest st"
| "val_loop ops argmax (Some b # rest) (val_loss, correct, total_n) =
     val_loop ops argmax rest
       (fl_add ops val_loss (loss_item b),
        correct + count_correct argmax (samples b),
        total_n + int (length (samples b)))"

text \<open>
  The metrics of one pass, \<open>(loss, accuracy)\<close>. Dividing by the integer zero raises
  \<open>ZeroDivisionError\<close>; the loss is computed first.
\<close>

definition train_metrics ::
  "'f float_ops \<Rightarrow> ('g list \<Rightarrow> nat) \<Rightarrow> ('g, 'f) loader \<Rightarrow> error + ('f \<times> 'f)" where
  "train_metrics ops argmax train_loader =
     (case train_loop ops argmax train_loader (fl_of_int ops 0, 0, 0) of
        (running_loss, correct, total_n) \<Rightarrow>
          if length train_loader = 0 then Inl ZeroDivisionError
          else let epoch_loss = fl_div ops running_loss (fl_of_int ops (int (length train_loader)))
               in if total_n = 0 then Inl ZeroDivisionError
                  else Inr (epoch_loss,
                            fl_div ops (fl_mul ops (fl_of_int ops 100) (fl_of_int ops correct))
                              (fl_of_int ops total_n)))"

definition val_metrics ::
  "'f float_ops \<Rightarrow> ('g list \<Rightarrow> nat) \<Rightarrow> ('g, 'f) loader \<Rightarrow> error + ('f \<times> 'f)" where
  "val_metrics ops argmax val_loader =
     (case val_loop ops argmax val_loader (fl_of_int ops 0, 0, 0) of
        (val_loss, correct, total_n) \<Rightarrow>
          if length val_loader = 0 then Inl ZeroDivisionError
          else let val_epoch_loss = fl_div ops val_loss (fl_of_int ops (int (length val_loader)))
               in if total_n = 0 then Inl ZeroDivisionError
                  else Inr (val_epoch_loss,
                            fl_div ops (fl_mul ops (fl_of_int ops 100) (fl_of_int ops correct))
                              (fl_of_int ops total_n)))"

text \<open>
  What \<open>main\<close> prints after the datasets are loaded: per epoch the training line and
  then the validation line, as the numbers before formatting. An exception ends \<open>main\<close>
  after the lines already printed. \<open>passes epoch\<close> is what the two loaders yield in
  that epoch.
\<close>

datatype 'f report = Training nat 'f 'f | Validation 'f 'f

fun main_epochs ::
  "'f float_ops \<Rightarrow> ('g list \<Rightarrow> nat) \<Rightarrow> (nat \<Rightarrow> ('g, 'f) loader \<times> ('g, 'f) loader) \<Rightarrow> nat list
     \<Rightarrow> 'f report list \<times> error option" where
  "main_epochs ops argmax passes [] = ([], None)"
| "main_epochs ops argmax passes (epoch # rest) =
     (case train_metrics ops argmax (fst (passes epoch)) of
        Inl e \<Rightarrow> ([], Some e)
      | Inr (epoch_loss, epoch_accuracy) \<Rightarrow>
          (case val_metrics ops argmax (snd (passes epoch)) of
             Inl e \<Rightarrow> ([Training (epoch + 1) epoch_loss epoch_accuracy], Some e)
           | Inr (val_epoch_loss, val_epoch_accuracy) \<Rightarrow>
               (case main_epochs ops argmax passes rest of
                  (out, err) \<Rightarrow>
                    (Training (epoch + 1) epoch_loss epoch_accuracy
                       # Validation val_epoch_loss val_epoch_accuracy # out, err))))"


section \<open>The metrics in the words of the claims\<close>




section \<open>Concrete inputs\<close>

text \<open>Small inputs on which the theorems below are instantiated.\<close>

definition example_ops :: "rat pixel_ops" where
  "example_ops =
     \<lparr>to_unit = (\<lambda>b. of_nat (unat b) / 255),
      interpolate = (\<lambda>s e hw ix. e (map (\<lambda>k. 0) ix)),
      normalize_px = (\<lambda>c x. x - of_nat c)\<rparr>"

definition rgb_frame :: image where
  "rgb_frame = \<lparr>channels = 3, height = 480, width = 640, pixels = (\<lambda>c y x. 17)\<rparr>"

definition gray_frame :: image where
  "gray_frame = \<lparr>channels = 1, height = 480, width = 640, pixels = (\<lambda>c y x. 17)\<rparr>"

definition example_row :: row where
  "example_row =
     \<lparr>video_name = Str ''video_1'', keyframe = Finite 2, x1 = Finite 0, y1 = Finite 0,
      x2 = Finite 1, y2 = Finite 1, behavior_category = 5, animal_category = ''cow''\<rparr>"

definition nan_row :: row where
  "nan_row = example_row\<lparr>keyframe := NaN\<rparr>"

definition bad_label_row :: row where
  "bad_label_row = example_row\<lparr>behavior_category := 1\<rparr>"

definition other_row :: row where
  "other_row =
     \<lparr>video_name = Str ''video_1'', keyframe = Finite (7 / 2), x1 = Finite (1 / 4),
      y1 = Finite (1 / 4), x2 = Finite (3 / 4), y2 = Finite (3 / 4), behavior_category = 9,
      animal_category = ''horse''\<rparr>"

definition example_ds :: "rat VideoDataset" where
  "example_ds =
     \<lparr>annotations = [example_row, nan_row, bad_label_row, other_row],
      self_transform = Some (transform example_ops)\<rparr>"

definition plain_ds :: "rat VideoDataset" where
  "plain_ds = \<lparr>annotations = [example_row], self_transform = None\<rparr>"

text \<open>
  A directory with the second frame only; one whose first frame is not an image; one
  with every frame; and the last without its first frame.
\<close>

definition fs_second_only :: filesystem where
  "fs_second_only =
     (\<lambda>p. if p = ''data/raw_frames/video_1/img_00002.jpg'' then Some (ImageFile rgb_frame)
          else None)"

definition fs_unreadable :: filesystem where
  "fs_unreadable =
     (\<lambda>p. if p = ''data/raw_frames/video_1/img_00001.jpg'' then Some OtherFile else None)"

definition fs_full :: filesystem where
  "fs_full = (\<lambda>p. Some (ImageFile rgb_frame))"

definition fs_first_missing :: filesystem where
  "fs_first_missing = fs_full(''data/raw_frames/video_1/img_00001.jpg'' := None)"

text \<open>
  An annotation file of a header line, two records and a blank line between them, each
  line the list of its cells; \<open>example_parse\<close> converts the records it knows.
\<close>

definition example_parse :: "string list \<Rightarrow> error + row" where
  "example_parse l =
     (if l = [''video_1'', ''2.0'', ''0'', ''0'', ''1'', ''1'', ''5'', ''cow''] then Inr example_row
      else if l = [''video_1'', [], ''0'', ''0'', ''1'', ''1'', ''5'', ''cow''] then Inr nan_row
      else Inl ValueError)"

definition example_csv :: "string list list" where
  "example_csv =
     [[''video_name'', ''keyframe'', ''x1'', ''y1'', ''x2'', ''y2'', ''behavior'', ''animal''],
      [''video_1'', ''2.0'', ''0'', ''0'', ''1'', ''1'', ''5'', ''cow''],
      [],
      [''video_1'', [], ''0'', ''0'', ''1'', ''1'', ''5'', ''cow'']]"

definition example_blank :: "string list \<Rightarrow> bool" where
  "example_blank l = (l = [])"




text \<open>
  A stand-in for torchvision's constructor, with the sizes of \<open>r3d_18\<close> (512 features,
  400 classes), an initialiser for new layers, and a batch of two clips.
\<close>

definition example_r3d_18 :: "string \<Rightarrow> rat VideoResNet" where
  "example_r3d_18 weights =
     \<lparr>features = (\<lambda>x. if length (shape x) = 5 then Inr (Tensor [hd (shape x), 512] (\<lambda>ix. 1))
                       else Inl RuntimeError),
      fc = \<lparr>in_features = 512, out_features = 400, lin_fun = (\<lambda>e ix. 1)\<rparr>\<rparr>"

definition example_init :: "nat \<Rightarrow> nat \<Rightarrow> (nat list \<Rightarrow> rat) \<Rightarrow> nat list \<Rightarrow> rat" where
  "example_init a b = (\<lambda>e ix. 0)"

definition example_clips :: "rat tensor" where
  "example_clips = Tensor [2, 450, 3, 224, 224] (\<lambda>ix. of_nat (ix ! 1))"

text \<open>
  The dataset that \<open>__init__\<close> builds from the example file, a file system in which
  both annotation files are the example file, and a run in which both loaders yield the
  example loader in every epoch.
\<close>

definition example_csv_ds :: "rat VideoDataset" where
  "example_csv_ds =
     \<lparr>annotations = [example_row, nan_row], self_transform = Some (transform example_ops)\<rparr>"



section \<open>Properties of the loop, of \<open>torch.stack\<close> and of the transform\<close>

lemma frame_at_path_error:
  "frame_path name i = Inl e \<Longrightarrow> frame_at ops tr fs name i = Inl e"
  by (simp add: frame_at_def)

lemma load_frames_iff:
  "snd (load_frames ops tr fs name js (probed, acc)) = Inr frames \<longleftrightarrow>
     (\<exists>new. frames = acc @ new \<and>
        list_all2 (\<lambda>i f. frame_at ops tr fs name i = Inr f) js new)"
proof (induction js arbitrary: probed acc)
  case Nil
  then show ?case by auto
next
  case (Cons j js)
  show ?case
  proof (cases "frame_path name j")
    case (Inl e)
    then show ?thesis by (auto simp: list_all2_Cons1 frame_at_path_error)
  next
    case p: (Inr p)
    show ?thesis
    proof (cases "frame_at ops tr fs name j")
      case (Inl e)
      with p show ?thesis by (auto simp: list_all2_Cons1)
    next
      case (Inr f)
      with p show ?thesis by (auto simp: Cons.IH list_all2_Cons1)
    qed
  qed
qed

lemma load_frames_map:
  assumes "\<forall>i \<in> set js. frame_at ops tr fs name i = Inr (g i)"
  shows "snd (load_frames ops tr fs name js (probed, acc)) = Inr (acc @ map g js)"
  using assms by (simp add: load_frames_iff list_all2_map2 list_all2_same)

lemma load_frames_first_error:
  assumes "frame_at ops tr fs name j = Inl e"
  shows "snd (load_frames ops tr fs name (j # js) (probed, acc)) = Inl e"
  using assms by (cases "frame_path name j") (auto simp: frame_at_path_error)

text \<open>
  The paths probed extend those probed before by the paths of a prefix of the counters,
  in order; by those of all counters when the loop ends normally.
\<close>

lemma load_frames_probed:
  "\<exists>new. fst (load_frames ops tr fs name js (probed, acc)) = probed @ new \<and>
     length new \<le> length js \<and>
     list_all2 (\<lambda>i p. frame_path name i = Inr p) (take (length new) js) new \<and>
     (\<not> isl (snd (load_frames ops tr fs name js (probed, acc))) \<longrightarrow> length new = length js)"
proof (induction js arbitrary: probed acc)
  case Nil
  then show ?case by simp
next
  case (Cons j js)
  show ?case
  proof (cases "frame_path name j")
    case (Inl e)
    then show ?thesis by simp
  next
    case p: (Inr p)
    show ?thesis
    proof (cases "frame_at ops tr fs name j")
      case (Inl e)
      have "fst (load_frames ops tr fs name (j # js) (probed, acc)) = probed @ [p] \<and>
          length [p] \<le> length (j # js) \<and>
          list_all2 (\<lambda>i p. frame_path name i = Inr p) (take (length [p]) (j # js)) [p] \<and>
          (\<not> isl (snd (load_frames ops tr fs name (j # js) (probed, acc))) \<longrightarrow>
             length [p] = length (j # js))"
        using p Inl by simp
      then show ?thesis by (intro exI)
    next
      case f: (Inr f)
      from Cons.IH [of "probed @ [p]" "acc @ [f]"] obtain new where
        new: "fst (load_frames ops tr fs name js (probed @ [p], acc @ [f])) = (probed @ [p]) @ new"
          "length new \<le> length js"
          "list_all2 (\<lambda>i p. frame_path name i = Inr p) (take (length new) js) new"
          "\<not> isl (snd (load_frames ops tr fs name js (probed @ [p], acc @ [f]))) \<longrightarrow>
             length new = length js"
        by blast
      have "fst (load_frames ops tr fs name (j # js) (probed, acc)) = probed @ (p # new) \<and>
          length (p # new) \<le> length (j # js) \<and>
          list_all2 (\<lambda>i p. frame_path name i = Inr p) (take (length (p # new)) (j # js)) (p # new) \<and>
          (\<not> isl (snd (load_frames ops tr fs name (j # js) (probed, acc))) \<longrightarrow>
             length (p # new) = length (j # js))"
        using p f new by simp
      then show ?thesis by (intro exI)
    qed
  qed
qed

lemma all2_upt_nth:
  assumes "list_all2 P [0..<n] fs" and "i < n"
  shows "P i (fs ! i)"
proof -
  from assms(2) have "i < length [0..<n]" by simp
  from list_all2_nthD [OF assms(1) this] show ?thesis using assms(2) by simp
qed

lemma torch_stack_Inr:
  assumes "torch_stack ts = Inr clip"
  shows "ts \<noteq> []" and "shape clip = length ts # shape (hd ts)"
    and "\<forall>t \<in> set ts. shape t = shape (hd ts)"
    and "\<forall>i < length ts. select0 clip i = ts ! i"
proof -
  from assms obtain t rest where ts: "ts = t # rest"
    by (cases ts) (auto simp: torch_stack_def)
  from assms ts have all: "list_all (\<lambda>u. shape u = shape t) rest"
    by (auto simp: torch_stack_def split: if_splits)
  from assms ts all have clip: "clip = Tensor (length ts # shape t) (stack_elems ts)"
    by (simp add: torch_stack_def)
  show "ts \<noteq> []" using ts by simp
  show "shape clip = length ts # shape (hd ts)" using clip ts by simp
  show sh: "\<forall>t \<in> set ts. shape t = shape (hd ts)" using all ts by (auto simp: list_all_iff)
  show "\<forall>i < length ts. select0 clip i = ts ! i"
  proof (intro allI impI)
    fix i assume i: "i < length ts"
    then have "shape (ts ! i) = shape t" using sh ts by (metis list.sel(1) nth_mem)
    then show "select0 clip i = ts ! i"
      using i by (cases "ts ! i") (simp add: select0_def clip stack_elems_def)
  qed
qed

lemma torch_stack_same_shape:
  assumes "ts \<noteq> []" and "\<forall>t \<in> set ts. shape t = s"
  shows "torch_stack ts = Inr (Tensor (length ts # s) (stack_elems ts))"
proof -
  from assms obtain t rest where ts: "ts = t # rest" by (cases ts) auto
  with assms have "list_all (\<lambda>u. shape u = shape t) rest" by (auto simp: list_all_iff)
  with ts assms show ?thesis by (simp add: torch_stack_def)
qed

lemma torch_stack_mismatch:
  assumes "t \<in> set ts" and "u \<in> set ts" and "shape t \<noteq> shape u"
  shows "torch_stack ts = Inl RuntimeError"
proof (cases "torch_stack ts")
  case (Inl e)
  then show ?thesis by (auto simp: torch_stack_def split: list.splits if_splits)
next
  case (Inr clip)
  from torch_stack_Inr(3) [OF Inr] assms show ?thesis by metis
qed

lemma zeros_shape: "shape (torch_zeros s) = s"
  by (simp add: torch_zeros_def)

lemma frame_at_Inr:
  "frame_at ops tr fs name i = Inr f \<longleftrightarrow>
     (\<exists>p. frame_path name i = Inr p \<and> frame_of ops tr fs p = Inr f)"
  by (auto simp: frame_at_def split: sum.splits)

lemma frame_of_missing:
  "fs p = None \<Longrightarrow> frame_of ops tr fs p = Inr (torch_zeros [3, IMG_HEIGHT, IMG_WIDTH])"
  by (simp add: frame_of_def os_path_exists_def)

lemma frame_of_unreadable:
  "fs p = Some OtherFile \<Longrightarrow> frame_of ops tr fs p = Inl RuntimeError"
  by (simp add: frame_of_def os_path_exists_def read_image_def)

lemma frame_of_plain:
  "fs p = Some (ImageFile im) \<Longrightarrow>
     \<exists>f. frame_of ops None fs p = Inr f \<and> shape f = [channels im, height im, width im]"
  by (simp add: frame_of_def os_path_exists_def read_image_def)

lemma frame_of_cong:
  "fs p = fs' p \<Longrightarrow> frame_of ops tr fs p = frame_of ops tr fs' p"
  by (simp add: frame_of_def os_path_exists_def read_image_def)

lemma transform_3d:
  assumes "shape t = [c, h, w]"
  shows "transform ops t =
     (if c = 3
      then Inr (Tensor [3, IMG_HEIGHT, IMG_WIDTH]
             (\<lambda>ix. normalize_px ops (ix ! (length ix - 3))
                (interpolate ops [c, h, w] (elems t) (IMG_HEIGHT, IMG_WIDTH) ix)))
      else Inl RuntimeError)"
  using assms by (simp add: transform_def Resize_def Normalize_def Let_def)

lemma frame_of_transformed:
  assumes "fs p = Some (ImageFile im)"
  shows "(channels im = 3 \<longrightarrow>
            (\<exists>f. frame_of ops (Some (transform ops)) fs p = Inr f \<and>
               shape f = [3, IMG_HEIGHT, IMG_WIDTH])) \<and>
         (channels im \<noteq> 3 \<longrightarrow> frame_of ops (Some (transform ops)) fs p = Inl RuntimeError)"
  using assms
  by (simp add: frame_of_def os_path_exists_def read_image_def transform_3d)

lemma frame_of_transformed_shape:
  assumes "frame_of ops (Some (transform ops)) fs p = Inr f"
  shows "shape f = [3, IMG_HEIGHT, IMG_WIDTH]"
proof (cases "fs p")
  case None
  with assms show ?thesis by (auto simp: frame_of_missing torch_zeros_def)
next
  case (Some e)
  show ?thesis
  proof (cases e)
    case (ImageFile im)
    with Some assms frame_of_transformed [of fs p im ops] show ?thesis
      by (cases "channels im = 3") auto
  next
    case OtherFile
    with Some assms show ?thesis by (simp add: frame_of_unreadable)
  qed
qed

lemma removal_keeps_frames:
  assumes "frame_at ops (Some (transform ops)) fs name i = Inr f"
    and "\<forall>p. fs' p = None \<or> fs' p = fs p"
  shows "\<exists>f'. frame_at ops (Some (transform ops)) fs' name i = Inr f' \<and>
           shape f' = [3, IMG_HEIGHT, IMG_WIDTH]"
proof -
  from assms(1) obtain p where p: "frame_path name i = Inr p"
    and f: "frame_of ops (Some (transform ops)) fs p = Inr f"
    by (auto simp: frame_at_Inr)
  show ?thesis
  proof (cases "fs' p")
    case None
    then show ?thesis using p by (simp add: frame_at_def frame_of_missing zeros_shape)
  next
    case (Some e)
    with assms(2) have "fs' p = fs p" by (metis option.distinct(1))
    then have "frame_of ops (Some (transform ops)) fs' p = Inr f"
      using f frame_of_cong [of fs' p fs ops "Some (transform ops)"] by simp
    then show ?thesis
      using p frame_of_transformed_shape [of ops fs' p f] by (simp add: frame_at_def)
  qed
qed

section \<open>Properties of \<open>__getitem__\<close>\<close>

lemma getitem_clip_unfold:
  "getitem_clip ops tr fs name kf =
     (case py_int (float_mul_int kf 30) of
        Inl e \<Rightarrow> Inl e
      | Inr k \<Rightarrow>
          (case snd (load_frames ops tr fs name [0..<450] ([], [])) of
             Inl e \<Rightarrow> Inl e
           | Inr frames \<Rightarrow> torch_stack frames))"
  by (simp add: getitem_clip_def clip_of_def split: sum.splits prod.splits)

lemma getitem_clip_Inr_iff:
  "getitem_clip ops tr fs name kf = Inr clip \<longleftrightarrow>
     (\<exists>k frames. py_int (float_mul_int kf 30) = Inr k \<and>
        list_all2 (\<lambda>i f. frame_at ops tr fs name i = Inr f) [0..<450] frames \<and>
        torch_stack frames = Inr clip)"
proof
  assume "getitem_clip ops tr fs name kf = Inr clip"
  then show "\<exists>k frames. py_int (float_mul_int kf 30) = Inr k \<and>
        list_all2 (\<lambda>i f. frame_at ops tr fs name i = Inr f) [0..<450] frames \<and>
        torch_stack frames = Inr clip"
    by (auto simp: getitem_clip_unfold load_frames_iff split: sum.splits)
next
  assume "\<exists>k frames. py_int (float_mul_int kf 30) = Inr k \<and>
        list_all2 (\<lambda>i f. frame_at ops tr fs name i = Inr f) [0..<450] frames \<and>
        torch_stack frames = Inr clip"
  then obtain k frames where h: "py_int (float_mul_int kf 30) = Inr k"
      "list_all2 (\<lambda>i f. frame_at ops tr fs name i = Inr f) [0..<450] frames"
      "torch_stack frames = Inr clip"
    by blast
  from h(2) have "snd (load_frames ops tr fs name [0..<450] ([], [])) = Inr frames"
    by (simp add: load_frames_iff)
  with h show "getitem_clip ops tr fs name kf = Inr clip"
    by (simp add: getitem_clip_unfold)
qed

lemma getitem_clip_returns:
  assumes "py_int (float_mul_int kf 30) = Inr k"
    and "\<forall>i < 450. frame_at ops tr fs name i = Inr (g i) \<and> shape (g i) = s"
  shows "getitem_clip ops tr fs name kf = Inr (Tensor (450 # s) (stack_elems (map g [0..<450])))"
proof -
  have "snd (load_frames ops tr fs name [0..<450] ([], [])) = Inr ([] @ map g [0..<450])"
    by (rule load_frames_map) (use assms(2) in auto)
  moreover have "torch_stack (map g [0..<450]) =
      Inr (Tensor (length (map g [0..<450]) # s) (stack_elems (map g [0..<450])))"
    by (rule torch_stack_same_shape) (use assms(2) in auto)
  ultimately show ?thesis using assms(1) by (simp add: getitem_clip_unfold)
qed

lemma getitem_clip_slices:
  assumes "getitem_clip ops tr fs name kf = Inr clip" and "i < 450"
  shows "\<exists>f. frame_at ops tr fs name i = Inr f \<and> select0 clip i = f"
proof -
  from assms(1) obtain frames where
    fr: "list_all2 (\<lambda>i f. frame_at ops tr fs name i = Inr f) [0..<450] frames"
    and st: "torch_stack frames = Inr clip"
    by (auto simp: getitem_clip_Inr_iff)
  from fr have len: "length frames = 450" by (auto dest: list_all2_lengthD)
  from all2_upt_nth [OF fr assms(2)] have "frame_at ops tr fs name i = Inr (frames ! i)" .
  moreover from torch_stack_Inr(4) [OF st] len assms(2) have "select0 clip i = frames ! i"
    by simp
  ultimately show ?thesis by simp
qed

lemma getitem_clip_keyframe:
  assumes "py_int (float_mul_int kf1 30) = Inr k1" and "py_int (float_mul_int kf2 30) = Inr k2"
  shows "getitem_clip ops tr fs name kf1 = getitem_clip ops tr fs name kf2"
  using assms by (simp add: getitem_clip_unfold)

lemma py_int_finite:
  assumes "\<bar>q * 30\<bar> < float_overflow"
  shows "\<exists>k. py_int (float_mul_int (Finite q) 30) = Inr k"
  using assms by (auto simp: float_of_exact_def)

lemma getitem_snd:
  "snd (getitem ops ds fs idx) =
     (case iloc (annotations ds) idx of
        Inl e \<Rightarrow> Inl e
      | Inr r \<Rightarrow>
          (case getitem_clip ops (self_transform ds) fs (video_name r) (keyframe r) of
             Inl e \<Rightarrow> Inl e
           | Inr clip \<Rightarrow> Inr (clip, behavior_category r - 2)))"
  by (simp add: getitem_def Let_def split: sum.splits)

lemma getitem_Inr_iff:
  "snd (getitem ops ds fs idx) = Inr (clip, label) \<longleftrightarrow>
     (\<exists>r. iloc (annotations ds) idx = Inr r \<and>
        getitem_clip ops (self_transform ds) fs (video_name r) (keyframe r) = Inr clip \<and>
        label = behavior_category r - 2)"
  by (auto simp: getitem_snd split: sum.splits)

lemma iloc_nat: "i < length rows \<Longrightarrow> iloc rows (int i) = Inr (rows ! i)"
  by (simp add: iloc_def)

lemma parse_rows_Inr:
  "parse_rows parse ls = Inr rs \<longleftrightarrow> list_all2 (\<lambda>l r. parse l = Inr r) ls rs"
proof (induction ls arbitrary: rs)
  case Nil
  then show ?case by auto
next
  case (Cons l ls)
  then show ?case
    by (cases "parse l"; cases "parse_rows parse ls") (auto simp: list_all2_Cons1)
qed

text \<open>
  Both datasets that the script trains and validates on carry the module-level
  \<open>transform\<close>, so the results above on that transform apply to them.
\<close>

lemma load_datasets_transform:
  assumes "snd (load_datasets ops parse blank files) = Inr (train_dataset, val_dataset)"
  shows "self_transform train_dataset = Some (transform ops)"
    and "self_transform val_dataset = Some (transform ops)"
    and "len train_dataset \<noteq> 0"
  using assms
  by (auto simp: load_datasets_def VideoDataset_init_def Let_def
      split: sum.splits if_splits)

section \<open>Paths\<close>

lemma os_path_join_relative:
  assumes "v \<noteq> []" and "hd v \<noteq> CHR ''/''" and "last v \<noteq> CHR ''/''"
    and "d \<noteq> []" and "last d \<noteq> CHR ''/''" and "n \<noteq> []" and "hd n \<noteq> CHR ''/''"
  shows "os_path_join d [v, n] = d @ ''/'' @ v @ ''/'' @ n"
proof -
  from assms(1,2) have v: "take 1 v \<noteq> ''/''" by (cases v) auto
  from assms(6,7) have n: "take 1 n \<noteq> ''/''" by (cases n) auto
  from assms(1,3) have l: "last (d @ CHR ''/'' # v) \<noteq> CHR ''/''" by simp
  show ?thesis using v n l assms(4,5) by simp
qed

lemma path_first: "frame_path (Str ''video_1'') 0 = Inr ''data/raw_frames/video_1/img_00001.jpg''"
  by code_simp

lemma path_second: "frame_path (Str ''video_1'') 1 = Inr ''data/raw_frames/video_1/img_00002.jpg''"
  by code_simp

lemma fmt_first: "fmt_05d 1 = ''00001''"
  by code_simp

lemma fmt_last: "fmt_05d 450 = ''00450''"
  by code_simp

lemma upt_450: "[0..<450] = 0 # [1..<450]"
  by (subst upt_rec) simp

section \<open>The examples\<close>

lemma bitlen_examples: "bitlen 60 = 6" "bitlen 1 = 1" "bitlen 105 = 7"
  by (simp_all add: compute_bitlen)

lemma float_60: "float_of_exact 60 = Finite 60"
  by (simp add: float_of_exact_def float_overflow_def round_double_def floor_log2_def pow2_def
      round_half_even_def bitlen_examples Let_def)

lemma float_105: "float_of_exact 105 = Finite 105"
  by (simp add: float_of_exact_def float_overflow_def round_double_def floor_log2_def pow2_def
      round_half_even_def bitlen_examples Let_def)

text \<open>
  The double nearest to one sixth is below it, and its exact product with 30 is below 5;
  the product rounds to 5.
\<close>

lemma round_sixth: "round_double (90071992547409915 / 18014398509481984) = 5"
  by code_simp

lemma py_int_sixth:
  "py_int (float_mul_int (Finite (6004799503160661 / 36028797018963968)) 30) = Inr 5"
  by (simp add: float_of_exact_def float_overflow_def round_sixth)

lemma py_int_example: "py_int (float_mul_int (Finite 2) 30) = Inr 60"
  by (simp add: float_60)

lemma py_int_other: "py_int (float_mul_int (Finite (7 / 2)) 30) = Inr 105"
  by (simp add: float_105)

lemma str_int_examples: "str_int (- 1) = ''-1''" "str_int 2 = ''2''"
  by code_simp+

lemma example_iloc:
  "iloc (annotations example_ds) 0 = Inr example_row"
  "iloc (annotations example_ds) 1 = Inr nan_row"
  "iloc (annotations example_ds) 2 = Inr bad_label_row"
  "iloc (annotations example_ds) 3 = Inr other_row"
  by (simp_all add: example_ds_def iloc_def)

lemma example_frame_at_second_only:
  "i < 450 \<Longrightarrow> \<exists>f. frame_at example_ops (Some (transform example_ops)) fs_second_only (Str ''video_1'') i = Inr f
     \<and> shape f = [3, IMG_HEIGHT, IMG_WIDTH]"
proof -
  obtain p where p: "frame_path (Str ''video_1'') i = Inr p" by (simp add: frame_path_def)
  show ?thesis
  proof (cases "fs_second_only p")
    case None
    then show ?thesis using p by (simp add: frame_at_def frame_of_missing torch_zeros_def)
  next
    case (Some e)
    then have "fs_second_only p = Some (ImageFile rgb_frame)"
      by (auto simp: fs_second_only_def split: if_splits)
    from frame_of_transformed [of fs_second_only p rgb_frame example_ops] this show ?thesis
      using p by (simp add: frame_at_def rgb_frame_def)
  qed
qed

lemma example_frames_second_only:
  "\<forall>i<450. \<exists>f. frame_at example_ops (self_transform example_ds) fs_second_only
      (video_name example_row) i = Inr f \<and> shape f = [3, IMG_HEIGHT, IMG_WIDTH]"
  using example_frame_at_second_only by (simp add: example_ds_def example_row_def)

lemma example_clip_returns:
  assumes "py_int (float_mul_int kf 30) = Inr k"
  shows "\<exists>clip. getitem_clip example_ops (Some (transform example_ops)) fs_second_only
           (Str ''video_1'') kf = Inr clip"
proof -
  have "\<forall>i<450. \<exists>f. frame_at example_ops (Some (transform example_ops)) fs_second_only
           (Str ''video_1'') i = Inr f \<and> shape f = [3, IMG_HEIGHT, IMG_WIDTH]"
    using example_frame_at_second_only by blast
  then obtain g where "\<forall>i<450. frame_at example_ops (Some (transform example_ops))
      fs_second_only (Str ''video_1'') i = Inr (g i) \<and> shape (g i) = [3, IMG_HEIGHT, IMG_WIDTH]"
    by metis
  from getitem_clip_returns [OF assms this] show ?thesis by blast
qed

lemma example_returns:
  "\<exists>clip. snd (getitem example_ops example_ds fs_second_only 0) = Inr (clip, 3)"
proof -
  have "\<forall>i<450. \<exists>f. frame_at example_ops (Some (transform example_ops)) fs_second_only (Str ''video_1'') i = Inr f
     \<and> shape f = [3, IMG_HEIGHT, IMG_WIDTH]"
    using example_frame_at_second_only by blast
  then obtain g where g: "\<forall>i<450. frame_at example_ops (Some (transform example_ops)) fs_second_only (Str ''video_1'') i = Inr (g i)
     \<and> shape (g i) = [3, IMG_HEIGHT, IMG_WIDTH]"
    by metis
  have k: "py_int (float_mul_int (Finite 2) 30) = Inr 60"
    by (simp add: float_60)
  from getitem_clip_returns [OF k g]
  show ?thesis
    by (simp add: getitem_snd example_ds_def iloc_def example_row_def)
qed

lemma fs_second_only_first: "fs_second_only ''data/raw_frames/video_1/img_00001.jpg'' = None"
  by (simp add: fs_second_only_def)

lemma fs_unreadable_first:
  "frame_at example_ops tr fs_unreadable (Str ''video_1'') 0 = Inl RuntimeError"
  by (simp add: frame_at_def path_first fs_unreadable_def frame_of_unreadable)

lemma plain_full_frames:
  "\<forall>i<450. frame_at example_ops None fs_full (Str ''video_1'') i =
      Inr (projr (frame_at example_ops None fs_full (Str ''video_1'') i)) \<and>
    shape (projr (frame_at example_ops None fs_full (Str ''video_1'') i)) = [3, 480, 640]"
  by (simp add: frame_at_def frame_path_def frame_of_def os_path_exists_def read_image_def
      fs_full_def rgb_frame_def)

lemma plain_full_returns:
  "\<not> isl (snd (getitem example_ops plain_ds fs_full 0))"
proof -
  have k: "py_int (float_mul_int (keyframe example_row) 30) = Inr 60"
    by (simp add: example_row_def float_60)
  from getitem_clip_returns [OF k plain_full_frames]
  have "\<exists>clip. getitem_clip example_ops None fs_full (Str ''video_1'') (keyframe example_row)
      = Inr clip" by blast
  then show ?thesis
    by (auto simp: getitem_snd plain_ds_def iloc_def example_row_def)
qed

lemma plain_missing_frames:
  "frame_at example_ops None fs_first_missing (Str ''video_1'') i =
     Inr (projr (frame_at example_ops None fs_first_missing (Str ''video_1'') i))"
  by (simp add: frame_at_def frame_path_def frame_of_def os_path_exists_def read_image_def
      fs_first_missing_def fs_full_def)

lemma plain_missing_shapes:
  "shape (projr (frame_at example_ops None fs_first_missing (Str ''video_1'') 0)) =
     [3, IMG_HEIGHT, IMG_WIDTH]"
  "shape (projr (frame_at example_ops None fs_first_missing (Str ''video_1'') (Suc 0))) =
     [3, 480, 640]"
proof -
  have "frame_path (Str ''video_1'') (Suc 0) = Inr ''data/raw_frames/video_1/img_00002.jpg''"
    using path_second by simp
  then show "shape (projr (frame_at example_ops None fs_first_missing (Str ''video_1'') (Suc 0))) =
     [3, 480, 640]"
    by (simp add: frame_at_def frame_of_def os_path_exists_def read_image_def
        fs_first_missing_def fs_full_def rgb_frame_def)
  show "shape (projr (frame_at example_ops None fs_first_missing (Str ''video_1'') 0)) =
     [3, IMG_HEIGHT, IMG_WIDTH]"
    by (simp add: frame_at_def path_first frame_of_def os_path_exists_def
        fs_first_missing_def torch_zeros_def)
qed

text \<open>
  A frame file with one channel is resized but not normalized: with the module-level
  \<open>transform\<close> the body of the loop raises on it.
\<close>

lemma gray_frame_raises:
  assumes "fs p = Some (ImageFile gray_frame)"
  shows "frame_of ops (Some (transform ops)) fs p = Inl RuntimeError"
  using frame_of_transformed [of fs p gray_frame ops] assms by (simp add: gray_frame_def)

section \<open>The loops of \<open>main\<close>\<close>






text \<open>With \<open>EPOCHS = 1\<close>, \<open>main\<close> prints the metrics of the two passes of epoch 1.\<close>

lemma main_epochs_one:
  "main_epochs ops argmax passes [0..<EPOCHS] =
     (case train_metrics ops argmax (fst (passes 0)) of
        Inl e \<Rightarrow> ([], Some e)
      | Inr (epoch_loss, epoch_accuracy) \<Rightarrow>
          (case val_metrics ops argmax (snd (passes 0)) of
             Inl e \<Rightarrow> ([Training 1 epoch_loss epoch_accuracy], Some e)
           | Inr (val_epoch_loss, val_epoch_accuracy) \<Rightarrow>
               ([Training 1 epoch_loss epoch_accuracy,
                 Validation val_epoch_loss val_epoch_accuracy], None)))"
  by (simp add: EPOCHS_def split: sum.splits prod.splits)



section \<open>\<open>permute\<close>\<close>

lemma sort_dims: "sort [0, 2, 1, 3, 4 :: nat] = [0..<5]"
  by code_simp

lemma upt_5: "[0..<5] = [0, 1, 2, 3, 4]"
  by code_simp

lemma index_of_dims:
  "index_of 0 [0, 2, Suc 0, 3, 4] = 0" "index_of (Suc 0) [0, 2, Suc 0, 3, 4] = 2"
  "index_of 2 [0, 2, Suc 0, 3, 4] = Suc 0" "index_of 3 [0, 2, Suc 0, 3, 4] = 3"
  "index_of 4 [0, 2, Suc 0, 3, 4] = 4"
  by (simp_all add: index_of_def)

lemma permute_index:
  "map (\<lambda>d. ix ! index_of d [0, 2, 1, 3, 4]) [0..<5] = [ix ! 0, ix ! 2, ix ! 1, ix ! 3, ix ! 4]"
  unfolding upt_5 by (simp add: index_of_dims)

lemma permute_clips:
  assumes "shape x = [b, t, c, h, w]"
  shows "permute [0, 2, 1, 3, 4] x =
     Inr (Tensor [b, c, t, h, w] (\<lambda>ix. elems x [ix ! 0, ix ! 2, ix ! 1, ix ! 3, ix ! 4]))"
proof -
  have l: "length (shape x) = 5" using assms by simp
  show ?thesis
    unfolding permute_def Let_def l sort_dims permute_index using assms by simp
qed

lemma permute_wrong_rank:
  assumes "length (shape x) \<noteq> 5"
  shows "permute [0, 2, 1, 3, 4] x = Inl RuntimeError"
proof -
  have "length (sort [0, 2, 1, 3, 4 :: nat]) = 5" by simp
  with assms have "sort [0, 2, 1, 3, 4 :: nat] \<noteq> [0..<length (shape x)]"
    by (metis length_upt minus_nat.diff_0)
  then show ?thesis by (simp add: permute_def Let_def)
qed

lemma getitem_returns_stack:
  assumes "iloc (annotations ds) idx = Inr r"
    and "py_int (float_mul_int (keyframe r) 30) = Inr k"
    and "\<forall>i<450. \<exists>f. frame_at ops (self_transform ds) fs (video_name r) i = Inr f \<and> shape f = s"
  shows "\<exists>frames clip.
            length frames = 450 \<and>
            (\<forall>i<450. frame_at ops (self_transform ds) fs (video_name r) i = Inr (frames ! i) \<and>
                     select0 clip i = frames ! i) \<and>
            torch_stack frames = Inr clip \<and> shape clip = 450 # s \<and>
            snd (getitem ops ds fs idx) = Inr (clip, behavior_category r - 2)"
proof -
  from assms(3) obtain g where
    g: "\<forall>i<450. frame_at ops (self_transform ds) fs (video_name r) i = Inr (g i) \<and> shape (g i) = s"
    by metis
  define frames where "frames = map g [0..<450]"
  define clip where "clip = Tensor (450 # s) (stack_elems frames)"
  have len: "length frames = 450" by (simp add: frames_def)
  have nth: "\<forall>i<450. frames ! i = g i" by (simp add: frames_def)
  have "torch_stack frames = Inr (Tensor (length frames # s) (stack_elems frames))"
    by (rule torch_stack_same_shape) (use g in \<open>auto simp: frames_def\<close>)
  then have st: "torch_stack frames = Inr clip" by (simp add: clip_def len)
  have sel: "\<forall>i<450. select0 clip i = frames ! i"
    using torch_stack_Inr(4) [OF st] len by simp
  have "getitem_clip ops (self_transform ds) fs (video_name r) (keyframe r) = Inr clip"
    using getitem_clip_returns [OF assms(2) g] by (simp add: clip_def frames_def)
  then have ret: "snd (getitem ops ds fs idx) = Inr (clip, behavior_category r - 2)"
    using assms(1) by (simp add: getitem_snd)
  have "length frames = 450 \<and>
      (\<forall>i<450. frame_at ops (self_transform ds) fs (video_name r) i = Inr (frames ! i) \<and>
               select0 clip i = frames ! i) \<and>
      torch_stack frames = Inr clip \<and> shape clip = 450 # s \<and>
      snd (getitem ops ds fs idx) = Inr (clip, behavior_category r - 2)"
    using len g nth sel st ret by (simp add: clip_def)
  then show ?thesis by blast
qed

lemma getitem_returned_stack:
  assumes "iloc (annotations ds) idx = Inr r"
    and "snd (getitem ops ds fs idx) = Inr (clip, label)"
  shows "\<exists>k frames.
            py_int (float_mul_int (keyframe r) 30) = Inr k \<and> length frames = 450 \<and>
            (\<forall>i<450. frame_at ops (self_transform ds) fs (video_name r) i = Inr (frames ! i) \<and>
                     shape (frames ! i) = shape (frames ! 0) \<and> select0 clip i = frames ! i) \<and>
            torch_stack frames = Inr clip \<and> shape clip = 450 # shape (frames ! 0)"
proof -
  from assms have
    c: "getitem_clip ops (self_transform ds) fs (video_name r) (keyframe r) = Inr clip"
    by (auto simp: getitem_Inr_iff)
  then obtain k frames where k: "py_int (float_mul_int (keyframe r) 30) = Inr k"
    and fr: "list_all2 (\<lambda>i f. frame_at ops (self_transform ds) fs (video_name r) i = Inr f)
           [0..<450] frames"
    and st: "torch_stack frames = Inr clip"
    by (auto simp: getitem_clip_Inr_iff)
  from fr have len: "length frames = 450" by (auto dest: list_all2_lengthD)
  then have hd: "hd frames = frames ! 0" by (cases frames) auto
  have each: "\<forall>i<450. frame_at ops (self_transform ds) fs (video_name r) i = Inr (frames ! i) \<and>
      shape (frames ! i) = shape (frames ! 0) \<and> select0 clip i = frames ! i"
  proof (intro allI impI)
    fix i :: nat
    assume i: "i < 450"
    from all2_upt_nth [OF fr i]
    have 1: "frame_at ops (self_transform ds) fs (video_name r) i = Inr (frames ! i)" .
    from i len have "frames ! i \<in> set frames" by simp
    with torch_stack_Inr(3) [OF st] hd have 2: "shape (frames ! i) = shape (frames ! 0)"
      by simp
    from i len have "i < length frames" by simp
    with torch_stack_Inr(4) [OF st] have 3: "select0 clip i = frames ! i" by blast
    from 1 2 3
    show "frame_at ops (self_transform ds) fs (video_name r) i = Inr (frames ! i) \<and>
      shape (frames ! i) = shape (frames ! 0) \<and> select0 clip i = frames ! i"
      by (intro conjI)
  qed
  have sh: "shape clip = 450 # shape (frames ! 0)"
    using torch_stack_Inr(2) [OF st] len hd by simp
  from k len each st sh
  have "py_int (float_mul_int (keyframe r) 30) = Inr k \<and> length frames = 450 \<and>
      (\<forall>i<450. frame_at ops (self_transform ds) fs (video_name r) i = Inr (frames ! i) \<and>
               shape (frames ! i) = shape (frames ! 0) \<and> select0 clip i = frames ! i) \<and>
      torch_stack frames = Inr clip \<and> shape clip = 450 # shape (frames ! 0)"
    by (intro conjI)
  then show ?thesis by (intro exI)
qed

section \<open>The paths that \<open>__getitem__\<close> probes\<close>

lemma clip_of_fst:
  "fst (clip_of ops tr fs name kf) =
     (case py_int (float_mul_int kf 30) of
        Inl e \<Rightarrow> []
      | Inr k \<Rightarrow> fst (load_frames ops tr fs name [0..<450] ([], [])))"
  by (simp add: clip_of_def split: sum.splits prod.splits)

lemma clip_of_probed:
  "length (fst (clip_of ops tr fs name kf)) \<le> 450 \<and>
   list_all2 (\<lambda>i p. frame_path name i = Inr p)
     [0..<length (fst (clip_of ops tr fs name kf))] (fst (clip_of ops tr fs name kf)) \<and>
   (\<not> isl (snd (clip_of ops tr fs name kf)) \<longrightarrow> length (fst (clip_of ops tr fs name kf)) = 450)"
proof (cases "py_int (float_mul_int kf 30)")
  case (Inl e)
  then show ?thesis by (simp add: clip_of_def)
next
  case (Inr k)
  from load_frames_probed [of ops tr fs name "[0..<450]" "[]" "[]"] obtain new where
    new: "fst (load_frames ops tr fs name [0..<450] ([], [])) = new"
      "length new \<le> 450"
      "list_all2 (\<lambda>i p. frame_path name i = Inr p) (take (length new) [0..<450]) new"
      "\<not> isl (snd (load_frames ops tr fs name [0..<450] ([], []))) \<longrightarrow> length new = 450"
    by auto
  from new(2) have t: "take (length new) [0..<450] = [0..<length new]"
    by (simp add: take_upt)
  have s: "\<not> isl (snd (clip_of ops tr fs name kf)) \<longrightarrow>
      \<not> isl (snd (load_frames ops tr fs name [0..<450] ([], [])))"
    using Inr by (auto simp: clip_of_def split: sum.splits prod.splits)
  from new t s Inr show ?thesis by (simp add: clip_of_fst)
qed

lemma getitem_probed_prefix:
  assumes "iloc (annotations ds) idx = Inr r"
  shows "length (getitem_probed ops ds fs idx) \<le> 450"
    and "list_all2 (\<lambda>i p. frame_path (video_name r) i = Inr p)
           [0..<length (getitem_probed ops ds fs idx)] (getitem_probed ops ds fs idx)"
  using assms clip_of_probed [of ops "self_transform ds" fs "video_name r" "keyframe r"]
  by (simp_all add: getitem_probed_def)

lemma getitem_probed_all:
  assumes "iloc (annotations ds) idx = Inr r"
    and "snd (getitem ops ds fs idx) = Inr (clip, label)"
  shows "length (getitem_probed ops ds fs idx) = 450"
proof -
  from assms have "getitem_clip ops (self_transform ds) fs (video_name r) (keyframe r) = Inr clip"
    by (auto simp: getitem_Inr_iff)
  then have "\<not> isl (snd (clip_of ops (self_transform ds) fs (video_name r) (keyframe r)))"
    by (simp add: getitem_clip_def)
  with clip_of_probed [of ops "self_transform ds" fs "video_name r" "keyframe r"] assms(1)
  show ?thesis by (simp add: getitem_probed_def)
qed

section \<open>The reports of \<open>main\<close>\<close>

lemma example_csv_init:
  "VideoDataset_init example_parse example_blank example_csv (Some (transform example_ops)) =
     Inr ([''Label range: 5 to 5''], example_csv_ds)"
proof -
  have s: "str_int 5 = ''5''" by code_simp
  show ?thesis
    by (simp add: VideoDataset_init_def read_csv_def data_lines_def example_csv_def
        example_parse_def example_blank_def str_min_def str_max_def s example_row_def
        nan_row_def example_csv_ds_def)
qed











section \<open>C1: the clip is a stack of 450 frames\<close>

text \<open>
  C1. For an index that addresses a row, the paths that \<open>__getitem__\<close> probes are, in
  the order of the loop, the paths of the first counters: at most 450 of them, the path
  at counter \<open>i\<close> being the one \<open>os.path.join\<close> builds from \<open>DATA_DIR\<close>, the row's
  \<open>video_name\<close> and the frame name of number \<open>i + 1\<close>. If \<open>int(keyframe * 30)\<close> does
  not raise and the body of the loop yields a tensor of one common shape \<open>s\<close> at each of
  the 450 counters, then \<open>__getitem__\<close> returns the clip that stacks exactly these 450
  tensors, one per counter, of shape \<open>450 # s\<close>, with the row's label, and it has probed
  all 450 paths. Whenever it returns a clip, \<open>int(keyframe * 30)\<close> did not raise, the
  clip is the stack of exactly 450 tensors of one shape, the tensor at each position is
  what the body yields at that counter, and all 450 paths were probed. The path of the
  first counter ends in \<open>img_00001.jpg\<close> and that of the last in \<open>img_00450.jpg\<close>; for
  a relative \<open>video_name\<close> that does not end in a slash the path at counter \<open>j\<close> is
  \<open>DATA_DIR/video_name/img_XXXXX.jpg\<close> with the five digits of \<open>j + 1\<close>.
\<close>

theorem getitem_stacks_450_frames:
  assumes "iloc (annotations ds) idx = Inr r"
  shows "length (getitem_probed ops ds fs idx) \<le> 450 \<and>
         list_all2 (\<lambda>i p. frame_path (video_name r) i = Inr p)
           [0..<length (getitem_probed ops ds fs idx)] (getitem_probed ops ds fs idx) \<and>
         (py_int (float_mul_int (keyframe r) 30) = Inr k \<and>
          (\<forall>i<450. \<exists>f. frame_at ops (self_transform ds) fs (video_name r) i = Inr f \<and>
                      shape f = s) \<longrightarrow>
            (\<exists>frames clip.
               length frames = 450 \<and>
               (\<forall>i<450. frame_at ops (self_transform ds) fs (video_name r) i = Inr (frames ! i) \<and>
                        select0 clip i = frames ! i) \<and>
               torch_stack frames = Inr clip \<and> shape clip = 450 # s \<and>
               snd (getitem ops ds fs idx) = Inr (clip, behavior_category r - 2) \<and>
               length (getitem_probed ops ds fs idx) = 450)) \<and>
         (snd (getitem ops ds fs idx) = Inr (clip', label') \<longrightarrow>
            (\<exists>k' frames.
               py_int (float_mul_int (keyframe r) 30) = Inr k' \<and> length frames = 450 \<and>
               (\<forall>i<450. frame_at ops (self_transform ds) fs (video_name r) i = Inr (frames ! i) \<and>
                        shape (frames ! i) = shape (frames ! 0) \<and>
                        select0 clip' i = frames ! i) \<and>
               torch_stack frames = Inr clip' \<and> shape clip' = 450 # shape (frames ! 0) \<and>
               length (getitem_probed ops ds fs idx) = 450)) \<and>
         frame_path (Str v) 0 = Inr (os_path_join DATA_DIR [v, ''img_00001.jpg'']) \<and>
         frame_path (Str v) 449 = Inr (os_path_join DATA_DIR [v, ''img_00450.jpg'']) \<and>
         (v \<noteq> [] \<and> hd v \<noteq> CHR ''/'' \<and> last v \<noteq> CHR ''/'' \<longrightarrow>
            frame_path (Str v) j =
              Inr (DATA_DIR @ ''/'' @ v @ ''/img_'' @ fmt_05d (j + 1) @ ''.jpg''))"
proof (intro conjI impI)
  show "length (getitem_probed ops ds fs idx) \<le> 450"
    by (rule getitem_probed_prefix(1) [OF assms])
  show "list_all2 (\<lambda>i p. frame_path (video_name r) i = Inr p)
      [0..<length (getitem_probed ops ds fs idx)] (getitem_probed ops ds fs idx)"
    by (rule getitem_probed_prefix(2) [OF assms])
next
  assume h: "py_int (float_mul_int (keyframe r) 30) = Inr k \<and>
    (\<forall>i<450. \<exists>f. frame_at ops (self_transform ds) fs (video_name r) i = Inr f \<and> shape f = s)"
  then have h1: "py_int (float_mul_int (keyframe r) 30) = Inr k"
    and h2: "\<forall>i<450. \<exists>f. frame_at ops (self_transform ds) fs (video_name r) i = Inr f \<and> shape f = s"
    by (rule conjunct1, rule conjunct2)
  from getitem_returns_stack [OF assms h1 h2] obtain frames clip where
    a: "length frames = 450"
      "\<forall>i<450. frame_at ops (self_transform ds) fs (video_name r) i = Inr (frames ! i) \<and>
               select0 clip i = frames ! i"
      "torch_stack frames = Inr clip" "shape clip = 450 # s"
      "snd (getitem ops ds fs idx) = Inr (clip, behavior_category r - 2)"
    by (elim exE conjE)
  from getitem_probed_all [OF assms a(5)]
  have p: "length (getitem_probed ops ds fs idx) = 450" .
  from a p have "length frames = 450 \<and>
      (\<forall>i<450. frame_at ops (self_transform ds) fs (video_name r) i = Inr (frames ! i) \<and>
               select0 clip i = frames ! i) \<and>
      torch_stack frames = Inr clip \<and> shape clip = 450 # s \<and>
      snd (getitem ops ds fs idx) = Inr (clip, behavior_category r - 2) \<and>
      length (getitem_probed ops ds fs idx) = 450"
    by (intro conjI)
  then show "\<exists>frames clip.
      length frames = 450 \<and>
      (\<forall>i<450. frame_at ops (self_transform ds) fs (video_name r) i = Inr (frames ! i) \<and>
               select0 clip i = frames ! i) \<and>
      torch_stack frames = Inr clip \<and> shape clip = 450 # s \<and>
      snd (getitem ops ds fs idx) = Inr (clip, behavior_category r - 2) \<and>
      length (getitem_probed ops ds fs idx) = 450"
    by (intro exI)
next
  assume r: "snd (getitem ops ds fs idx) = Inr (clip', label')"
  from getitem_returned_stack [OF assms r] obtain k' frames where
    a: "py_int (float_mul_int (keyframe r) 30) = Inr k'" "length frames = 450"
      "\<forall>i<450. frame_at ops (self_transform ds) fs (video_name r) i = Inr (frames ! i) \<and>
               shape (frames ! i) = shape (frames ! 0) \<and> select0 clip' i = frames ! i"
      "torch_stack frames = Inr clip'" "shape clip' = 450 # shape (frames ! 0)"
    by (elim exE conjE)
  from getitem_probed_all [OF assms r]
  have p: "length (getitem_probed ops ds fs idx) = 450" .
  from a p have "py_int (float_mul_int (keyframe r) 30) = Inr k' \<and> length frames = 450 \<and>
      (\<forall>i<450. frame_at ops (self_transform ds) fs (video_name r) i = Inr (frames ! i) \<and>
               shape (frames ! i) = shape (frames ! 0) \<and> select0 clip' i = frames ! i) \<and>
      torch_stack frames = Inr clip' \<and> shape clip' = 450 # shape (frames ! 0) \<and>
      length (getitem_probed ops ds fs idx) = 450"
    by (intro conjI)
  then show "\<exists>k' frames.
      py_int (float_mul_int (keyframe r) 30) = Inr k' \<and> length frames = 450 \<and>
      (\<forall>i<450. frame_at ops (self_transform ds) fs (video_name r) i = Inr (frames ! i) \<and>
               shape (frames ! i) = shape (frames ! 0) \<and> select0 clip' i = frames ! i) \<and>
      torch_stack frames = Inr clip' \<and> shape clip' = 450 # shape (frames ! 0) \<and>
      length (getitem_probed ops ds fs idx) = 450"
    by (intro exI)
next
  have "fmt_05d (Suc 0) = ''00001''" using fmt_first by simp
  then show "frame_path (Str v) 0 = Inr (os_path_join DATA_DIR [v, ''img_00001.jpg''])"
    by (simp add: frame_path_def)
next
  have "449 + 1 = (450::nat)" by simp
  then show "frame_path (Str v) 449 = Inr (os_path_join DATA_DIR [v, ''img_00450.jpg''])"
    by (simp add: frame_path_def fmt_last)
next
  assume "v \<noteq> [] \<and> hd v \<noteq> CHR ''/'' \<and> last v \<noteq> CHR ''/''"
  then have "os_path_join DATA_DIR [v, ''img_'' @ fmt_05d (j + 1) @ ''.jpg''] =
      DATA_DIR @ ''/'' @ v @ ''/'' @ (''img_'' @ fmt_05d (j + 1) @ ''.jpg'')"
    by (intro os_path_join_relative) (simp_all add: DATA_DIR_def)
  then show "frame_path (Str v) j =
      Inr (DATA_DIR @ ''/'' @ v @ ''/img_'' @ fmt_05d (j + 1) @ ''.jpg'')"
    by (simp add: frame_path_def)
qed

text \<open>
  On the example dataset, with only the second frame on disk, index 0 probes 450 paths
  and returns a stack of 450 tensors of shape \<open>[3, 224, 224]\<close>.
\<close>

theorem getitem_stacks_450_frames_witness:
  "length (getitem_probed example_ops example_ds fs_second_only 0) = 450 \<and>
   (\<exists>frames clip.
      length frames = 450 \<and>
      (\<forall>i<450. frame_at example_ops (self_transform example_ds) fs_second_only
                 (video_name example_row) i = Inr (frames ! i) \<and>
               select0 clip i = frames ! i) \<and>
      torch_stack frames = Inr clip \<and> shape clip = [450, 3, IMG_HEIGHT, IMG_WIDTH] \<and>
      snd (getitem example_ops example_ds fs_second_only 0) = Inr (clip, 3)) \<and>
   frame_path (Str ''video_1'') 1 =
     Inr (DATA_DIR @ ''/'' @ ''video_1'' @ ''/img_'' @ fmt_05d (1 + 1) @ ''.jpg'')"
proof -
  have k: "py_int (float_mul_int (keyframe example_row) 30) = Inr 60"
    by (simp add: example_row_def float_60)
  have v: "''video_1'' \<noteq> [] \<and> hd ''video_1'' \<noteq> CHR ''/'' \<and> last ''video_1'' \<noteq> CHR ''/''"
    by simp
  note t = getitem_stacks_450_frames [OF example_iloc(1), where k = 60 and ops = example_ops
      and fs = fs_second_only and s = "[3, IMG_HEIGHT, IMG_WIDTH]" and v = "''video_1''"
      and j = 1]
  from t k example_frames_second_only obtain frames clip where
    a: "length frames = 450"
      "\<forall>i<450. frame_at example_ops (self_transform example_ds) fs_second_only
                 (video_name example_row) i = Inr (frames ! i) \<and>
               select0 clip i = frames ! i"
      "torch_stack frames = Inr clip" "shape clip = [450, 3, IMG_HEIGHT, IMG_WIDTH]"
      "snd (getitem example_ops example_ds fs_second_only 0) =
         Inr (clip, behavior_category example_row - 2)"
      "length (getitem_probed example_ops example_ds fs_second_only 0) = 450"
    by blast
  have l: "behavior_category example_row - 2 = 3" by (simp add: example_row_def)
  from t v have p: "frame_path (Str ''video_1'') 1 =
     Inr (DATA_DIR @ ''/'' @ ''video_1'' @ ''/img_'' @ fmt_05d (1 + 1) @ ''.jpg'')"
    by blast
  from a(5) l have r: "snd (getitem example_ops example_ds fs_second_only 0) = Inr (clip, 3)"
    by simp
  have "length frames = 450 \<and>
      (\<forall>i<450. frame_at example_ops (self_transform example_ds) fs_second_only
                 (video_name example_row) i = Inr (frames ! i) \<and>
               select0 clip i = frames ! i) \<and>
      torch_stack frames = Inr clip \<and> shape clip = [450, 3, IMG_HEIGHT, IMG_WIDTH] \<and>
      snd (getitem example_ops example_ds fs_second_only 0) = Inr (clip, 3)"
    using a(1-4) r by (intro conjI)
  then have "\<exists>frames clip. length frames = 450 \<and>
      (\<forall>i<450. frame_at example_ops (self_transform example_ds) fs_second_only
                 (video_name example_row) i = Inr (frames ! i) \<and>
               select0 clip i = frames ! i) \<and>
      torch_stack frames = Inr clip \<and> shape clip = [450, 3, IMG_HEIGHT, IMG_WIDTH] \<and>
      snd (getitem example_ops example_ds fs_second_only 0) = Inr (clip, 3)"
    by (intro exI)
  with a(6) p show ?thesis by (intro conjI)
qed

text \<open>
  As stated for every index, C1 fails: when the first frame file exists but is not an
  image that \<open>read_image\<close> decodes, \<open>__getitem__\<close> raises after probing that one path
  and returns no clip.
\<close>

theorem getitem_raises_on_unreadable_frame:
  "iloc (annotations example_ds) 0 = Inr example_row \<and>
   fs_unreadable ''data/raw_frames/video_1/img_00001.jpg'' = Some OtherFile \<and>
   snd (getitem example_ops example_ds fs_unreadable 0) = Inl RuntimeError \<and>
   getitem_probed example_ops example_ds fs_unreadable 0 =
     [''data/raw_frames/video_1/img_00001.jpg'']"
proof -
  have r: "iloc (annotations example_ds) 0 = Inr example_row"
    by (simp add: example_ds_def iloc_def)
  have l: "load_frames example_ops (self_transform example_ds) fs_unreadable (Str ''video_1'')
          [0..<450] ([], []) = ([''data/raw_frames/video_1/img_00001.jpg''], Inl RuntimeError)"
    unfolding upt_450 by (simp add: path_first fs_unreadable_first)
  then have "getitem_clip example_ops (self_transform example_ds) fs_unreadable
      (video_name example_row) (keyframe example_row) = Inl RuntimeError"
    by (simp add: getitem_clip_unfold example_row_def float_60)
  moreover have "fst (clip_of example_ops (self_transform example_ds) fs_unreadable
      (video_name example_row) (keyframe example_row)) =
      [''data/raw_frames/video_1/img_00001.jpg'']"
    using l by (simp add: clip_of_fst example_row_def float_60)
  ultimately show ?thesis
    using r by (simp add: getitem_snd getitem_probed_def fs_unreadable_def)
qed

section \<open>C2: missing frames\<close>

text \<open>
  C2. At a counter whose path does not exist the body of the loop yields the zero tensor
  of shape \<open>(3, IMG_HEIGHT, IMG_WIDTH)\<close> and no exception; in a clip that \<open>__getitem__\<close>
  returns, the slice at such a position is that zero tensor; and with the module-level
  \<open>transform\<close>, a call that returns still returns, with the same label, after any files
  are removed from the file system.
\<close>

theorem missing_frames_are_zero_filled:
  "(frame_path name i = Inr p \<and> fs p = None \<longrightarrow>
      frame_at ops tr fs name i = Inr (torch_zeros [3, IMG_HEIGHT, IMG_WIDTH])) \<and>
   (snd (getitem ops ds fs idx) = Inr (clip, label) \<and> iloc (annotations ds) idx = Inr r \<and>
    j < 450 \<and> frame_path (video_name r) j = Inr q \<and> fs q = None \<longrightarrow>
      select0 clip j = torch_zeros [3, IMG_HEIGHT, IMG_WIDTH]) \<and>
   (self_transform ds = Some (transform ops) \<and>
    snd (getitem ops ds fs idx) = Inr (clip, label) \<and> (\<forall>p. fs' p = None \<or> fs' p = fs p) \<longrightarrow>
      (\<exists>clip'. snd (getitem ops ds fs' idx) = Inr (clip', label)))"
proof (intro conjI impI)
  assume "frame_path name i = Inr p \<and> fs p = None"
  then show "frame_at ops tr fs name i = Inr (torch_zeros [3, IMG_HEIGHT, IMG_WIDTH])"
    by (simp add: frame_at_def frame_of_missing)
next
  assume h: "snd (getitem ops ds fs idx) = Inr (clip, label) \<and>
    iloc (annotations ds) idx = Inr r \<and> j < 450 \<and> frame_path (video_name r) j = Inr q \<and>
    fs q = None"
  then have "getitem_clip ops (self_transform ds) fs (video_name r) (keyframe r) = Inr clip"
    by (auto simp: getitem_Inr_iff)
  from getitem_clip_slices [OF this, of j] h obtain f where
    "frame_at ops (self_transform ds) fs (video_name r) j = Inr f" "select0 clip j = f"
    by auto
  with h show "select0 clip j = torch_zeros [3, IMG_HEIGHT, IMG_WIDTH]"
    by (simp add: frame_at_def frame_of_missing)
next
  assume h: "self_transform ds = Some (transform ops) \<and>
    snd (getitem ops ds fs idx) = Inr (clip, label) \<and> (\<forall>p. fs' p = None \<or> fs' p = fs p)"
  then obtain r0 :: row where r0: "iloc (annotations ds) idx = Inr r0"
    and c: "getitem_clip ops (Some (transform ops)) fs (video_name r0) (keyframe r0) = Inr clip"
    and l: "label = behavior_category r0 - 2"
    by (auto simp: getitem_Inr_iff)
  from c obtain k where k: "py_int (float_mul_int (keyframe r0) 30) = Inr k"
    by (auto simp: getitem_clip_Inr_iff)
  have "\<forall>i<450. \<exists>f'. frame_at ops (Some (transform ops)) fs' (video_name r0) i = Inr f' \<and>
      shape f' = [3, IMG_HEIGHT, IMG_WIDTH]"
  proof (intro allI impI)
    fix i :: nat assume "i < 450"
    from getitem_clip_slices [OF c this] obtain f where
      "frame_at ops (Some (transform ops)) fs (video_name r0) i = Inr f" by blast
    from removal_keeps_frames [OF this] h
    show "\<exists>f'. frame_at ops (Some (transform ops)) fs' (video_name r0) i = Inr f' \<and>
      shape f' = [3, IMG_HEIGHT, IMG_WIDTH]" by blast
  qed
  then obtain g where "\<forall>i<450. frame_at ops (Some (transform ops)) fs' (video_name r0) i = Inr (g i)
      \<and> shape (g i) = [3, IMG_HEIGHT, IMG_WIDTH]"
    by metis
  from getitem_clip_returns [OF k this] r0 l h
  show "\<exists>clip'. snd (getitem ops ds fs' idx) = Inr (clip', label)"
    by (simp add: getitem_snd)
qed

text \<open>
  On the example dataset with only the second frame on disk: the first counter yields
  the zero tensor, the clip returned for index 0 has it as its first slice, and the index
  still returns when no file is left.
\<close>

theorem missing_frames_are_zero_filled_witness:
  "frame_at example_ops (Some (transform example_ops)) fs_second_only (Str ''video_1'') 0 =
     Inr (torch_zeros [3, IMG_HEIGHT, IMG_WIDTH]) \<and>
   (\<exists>clip. snd (getitem example_ops example_ds fs_second_only 0) = Inr (clip, 3) \<and>
      select0 clip 0 = torch_zeros [3, IMG_HEIGHT, IMG_WIDTH] \<and>
      (\<exists>clip'. snd (getitem example_ops example_ds (\<lambda>p. None) 0) = Inr (clip', 3)))"
proof -
  from example_returns obtain clip where
    c: "snd (getitem example_ops example_ds fs_second_only 0) = Inr (clip, 3)" by blast
  have t: "self_transform example_ds = Some (transform example_ops)"
    by (simp add: example_ds_def)
  have v: "video_name example_row = Str ''video_1''" by (simp add: example_row_def)
  from missing_frames_are_zero_filled [where name = "Str ''video_1''" and i = 0
      and p = "''data/raw_frames/video_1/img_00001.jpg''" and fs = fs_second_only
      and ops = example_ops and tr = "Some (transform example_ops)" and ds = example_ds
      and idx = 0 and clip = clip and label = 3 and r = example_row and j = 0
      and q = "''data/raw_frames/video_1/img_00001.jpg''" and fs' = "\<lambda>p. None"]
  show ?thesis
    using c t v path_first fs_second_only_first example_iloc(1) by auto
qed

text \<open>
  As stated for every dataset, C2 fails: without a transform, frames are stacked at the
  size they have on disk. With every frame present as a 480 by 640 image index 0 returns
  a clip; once the first frame file is removed, its place is taken by a zero tensor of
  shape \<open>(3, 224, 224)\<close> and \<open>torch.stack\<close> raises.
\<close>

theorem missing_frame_breaks_untransformed_stack:
  "self_transform plain_ds = None \<and>
   \<not> isl (snd (getitem example_ops plain_ds fs_full 0)) \<and>
   frame_path (Str ''video_1'') 0 = Inr ''data/raw_frames/video_1/img_00001.jpg'' \<and>
   fs_first_missing = fs_full(''data/raw_frames/video_1/img_00001.jpg'' := None) \<and>
   snd (getitem example_ops plain_ds fs_first_missing 0) = Inl RuntimeError"
proof -
  let ?g = "\<lambda>i. projr (frame_at example_ops None fs_first_missing (Str ''video_1'') i)"
  have "snd (load_frames example_ops None fs_first_missing (Str ''video_1'') [0..<450] ([], [])) =
      Inr ([] @ map ?g [0..<450])"
    by (rule load_frames_map) (use plain_missing_frames in blast)
  moreover have "torch_stack (map ?g [0..<450]) = Inl RuntimeError"
  proof (rule torch_stack_mismatch)
    show "?g 0 \<in> set (map ?g [0..<450])" by simp
    show "?g (Suc 0) \<in> set (map ?g [0..<450])" by simp
    show "shape (?g 0) \<noteq> shape (?g (Suc 0))"
      by (simp add: plain_missing_shapes IMG_HEIGHT_def)
  qed
  ultimately have "getitem_clip example_ops None fs_first_missing (Str ''video_1'')
      (keyframe example_row) = Inl RuntimeError"
    by (simp add: getitem_clip_unfold example_row_def float_60)
  then have "snd (getitem example_ops plain_ds fs_first_missing 0) = Inl RuntimeError"
    by (simp add: getitem_snd plain_ds_def iloc_def example_row_def)
  with plain_full_returns path_first show ?thesis
    by (simp add: plain_ds_def fs_first_missing_def)
qed

section \<open>C3: what the clip depends on\<close>

text \<open>
  C3. For two rows of a dataset with the same \<open>video_name\<close> and finite keyframes (whose
  product with 30 does not overflow), and one file system, \<open>__getitem__\<close> has the same
  outcome as far as the clip goes: the same clip, or the same exception. The value of
  the keyframe, the box columns, the animal and the behavior category do not enter.
\<close>

theorem clip_depends_on_video_name_only:
  assumes "iloc (annotations ds) i = Inr r1" and "iloc (annotations ds) j = Inr r2"
    and "video_name r1 = video_name r2"
    and "keyframe r1 = Finite q1" and "\<bar>q1 * 30\<bar> < float_overflow"
    and "keyframe r2 = Finite q2" and "\<bar>q2 * 30\<bar> < float_overflow"
  shows "map_sum id fst (snd (getitem ops ds fs i)) = map_sum id fst (snd (getitem ops ds fs j))"
proof -
  from py_int_finite [OF assms(5)] assms(4) obtain k1 where
    k1: "py_int (float_mul_int (keyframe r1) 30) = Inr k1" by auto
  from py_int_finite [OF assms(7)] assms(6) obtain k2 where
    k2: "py_int (float_mul_int (keyframe r2) 30) = Inr k2" by auto
  have "getitem_clip ops (self_transform ds) fs (video_name r1) (keyframe r1) =
      getitem_clip ops (self_transform ds) fs (video_name r2) (keyframe r2)"
    using getitem_clip_keyframe [OF k1 k2] assms(3) by simp
  then show ?thesis
    using assms(1,2) by (simp add: getitem_snd split: sum.splits)
qed

text \<open>
  The first and the fourth row of the example dataset share their \<open>video_name\<close> and
  differ in every other column; both indices return the same clip.
\<close>

theorem clip_depends_on_video_name_only_witness:
  "video_name example_row = video_name other_row \<and>
   keyframe example_row \<noteq> keyframe other_row \<and>
   \<not> isl (snd (getitem example_ops example_ds fs_second_only 0)) \<and>
   map_sum id fst (snd (getitem example_ops example_ds fs_second_only 0)) =
     map_sum id fst (snd (getitem example_ops example_ds fs_second_only 3))"
proof -
  have a: "video_name example_row = video_name other_row"
    by (simp add: example_row_def other_row_def)
  have b: "keyframe example_row = Finite 2" "keyframe other_row = Finite (7 / 2)"
    by (simp_all add: example_row_def other_row_def)
  have c: "\<bar>(2::rat) * 30\<bar> < float_overflow" "\<bar>(7 / 2 :: rat) * 30\<bar> < float_overflow"
    by (simp_all add: float_overflow_def)
  from example_returns have d: "\<not> isl (snd (getitem example_ops example_ds fs_second_only 0))"
    by auto
  from clip_depends_on_video_name_only [OF example_iloc(1) example_iloc(4) a b(1) c(1) b(2) c(2)]
  show ?thesis using a b d by simp
qed

text \<open>
  As stated for any two rows, C3 fails: the second row of the example dataset has the
  \<open>video_name\<close> of the first and an empty keyframe cell (NaN), and \<open>int\<close> raises
  \<open>ValueError\<close> on it, while the first row returns a clip.
\<close>

theorem nan_keyframe_makes_getitem_raise:
  "video_name example_row = video_name nan_row \<and>
   iloc (annotations example_ds) 0 = Inr example_row \<and>
   iloc (annotations example_ds) 1 = Inr nan_row \<and>
   \<not> isl (snd (getitem example_ops example_ds fs_second_only 0)) \<and>
   snd (getitem example_ops example_ds fs_second_only 1) = Inl ValueError"
proof -
  from example_returns have "\<not> isl (snd (getitem example_ops example_ds fs_second_only 0))"
    by auto
  moreover have "getitem_clip example_ops (self_transform example_ds) fs_second_only
      (video_name nan_row) (keyframe nan_row) = Inl ValueError"
    by (simp add: getitem_clip_unfold nan_row_def)
  ultimately show ?thesis
    by (simp add: getitem_snd example_iloc nan_row_def)
qed

section \<open>C4: the model\<close>

text \<open>
  C4. \<open>I3D(NUM_CLASSES)\<close> keeps everything of \<open>r3d_18(weights="KINETICS400_V1")\<close> but
  its last layer, which is a newly initialised linear layer with the same number of input
  features and 11 outputs. On an input of shape \<open>[batch, frames, channels, height,
  width]\<close>, \<open>forward\<close> applies the network to the tensor of shape \<open>[batch, channels,
  frames, height, width]\<close> with the second and third index exchanged; when the features
  have shape \<open>[batch, in_features]\<close> the output has shape \<open>[batch, 11]\<close>.
\<close>

theorem I3D_is_r3d_18_with_new_head_on_permuted_input:
  "features (model (I3D_init r3d_18 init NUM_CLASSES)) = features (r3d_18 ''KINETICS400_V1'') \<and>
   fc (model (I3D_init r3d_18 init NUM_CLASSES)) =
     nn_Linear init (in_features (fc (r3d_18 ''KINETICS400_V1''))) 11 \<and>
   out_features (fc (model (I3D_init r3d_18 init NUM_CLASSES))) = 11 \<and>
   lin_fun (fc (model (I3D_init r3d_18 init NUM_CLASSES))) =
     init (in_features (fc (r3d_18 ''KINETICS400_V1''))) 11 \<and>
   (shape x = [b, t, c, h, w] \<longrightarrow>
      (\<exists>x'. permute [0, 2, 1, 3, 4] x = Inr x' \<and> shape x' = [b, c, t, h, w] \<and>
         (\<forall>i j k y z. elems x' [i, k, j, y, z] = elems x [i, j, k, y, z]) \<and>
         I3D_forward net x = VideoResNet_forward (model net) x' \<and>
         (\<forall>hid. features (model (I3D_init r3d_18 init NUM_CLASSES)) x' = Inr hid \<and>
            shape hid = [b, in_features (fc (r3d_18 ''KINETICS400_V1''))] \<longrightarrow>
            (\<exists>out. I3D_forward (I3D_init r3d_18 init NUM_CLASSES) x = Inr out \<and>
               shape out = [b, 11]))))"
proof (intro conjI impI)
  show "features (model (I3D_init r3d_18 init NUM_CLASSES)) = features (r3d_18 ''KINETICS400_V1'')"
    by (simp add: I3D_init_def Let_def)
  show "fc (model (I3D_init r3d_18 init NUM_CLASSES)) =
      nn_Linear init (in_features (fc (r3d_18 ''KINETICS400_V1''))) 11"
    by (simp add: I3D_init_def Let_def NUM_CLASSES_def)
  show "out_features (fc (model (I3D_init r3d_18 init NUM_CLASSES))) = 11"
    by (simp add: I3D_init_def Let_def NUM_CLASSES_def nn_Linear_def)
  show "lin_fun (fc (model (I3D_init r3d_18 init NUM_CLASSES))) =
      init (in_features (fc (r3d_18 ''KINETICS400_V1''))) 11"
    by (simp add: I3D_init_def Let_def NUM_CLASSES_def nn_Linear_def)
next
  assume s: "shape x = [b, t, c, h, w]"
  define x' where "x' = Tensor [b, c, t, h, w] (\<lambda>ix. elems x [ix ! 0, ix ! 2, ix ! 1, ix ! 3, ix ! 4])"
  have p: "permute [0, 2, 1, 3, 4] x = Inr x'"
    using permute_clips [OF s] by (simp add: x'_def)
  have fw: "I3D_forward n x = VideoResNet_forward (model n) x'" for n :: "'a I3D"
    unfolding I3D_forward_def p by simp
  have out: "\<exists>out. I3D_forward (I3D_init r3d_18 init NUM_CLASSES) x = Inr out \<and> shape out = [b, 11]"
    if "features (model (I3D_init r3d_18 init NUM_CLASSES)) x' = Inr hid"
      and "shape hid = [b, in_features (fc (r3d_18 ''KINETICS400_V1''))]" for hid
    using that
    by (simp add: fw VideoResNet_forward_def Linear_forward_def I3D_init_def Let_def
        nn_Linear_def NUM_CLASSES_def)
  show "\<exists>x'. permute [0, 2, 1, 3, 4] x = Inr x' \<and> shape x' = [b, c, t, h, w] \<and>
         (\<forall>i j k y z. elems x' [i, k, j, y, z] = elems x [i, j, k, y, z]) \<and>
         I3D_forward net x = VideoResNet_forward (model net) x' \<and>
         (\<forall>hid. features (model (I3D_init r3d_18 init NUM_CLASSES)) x' = Inr hid \<and>
            shape hid = [b, in_features (fc (r3d_18 ''KINETICS400_V1''))] \<longrightarrow>
            (\<exists>out. I3D_forward (I3D_init r3d_18 init NUM_CLASSES) x = Inr out \<and>
               shape out = [b, 11]))"
  proof (rule exI [of _ x'], intro conjI allI impI)
    show "permute [0, 2, 1, 3, 4] x = Inr x'" by (rule p)
    show "shape x' = [b, c, t, h, w]" by (simp add: x'_def)
    show "elems x' [i, k, j, y, z] = elems x [i, j, k, y, z]" for i j k y z
      by (simp add: x'_def)
    show "I3D_forward net x = VideoResNet_forward (model net) x'" by (rule fw)
    show "\<exists>out. I3D_forward (I3D_init r3d_18 init NUM_CLASSES) x = Inr out \<and> shape out = [b, 11]"
      if "features (model (I3D_init r3d_18 init NUM_CLASSES)) x' = Inr hid \<and>
            shape hid = [b, in_features (fc (r3d_18 ''KINETICS400_V1''))]" for hid
      using out that by blast
  qed
qed

text \<open>
  A batch of two clips of 450 frames is permuted to \<open>[2, 3, 450, 224, 224]\<close> and mapped
  to an output of shape \<open>[2, 11]\<close>.
\<close>

theorem I3D_is_r3d_18_with_new_head_on_permuted_input_witness:
  "shape example_clips = [2, 450, 3, 224, 224] \<and>
   (\<exists>x'. permute [0, 2, 1, 3, 4] example_clips = Inr x' \<and> shape x' = [2, 3, 450, 224, 224] \<and>
      elems x' [1, 2, 7, 0, 0] = elems example_clips [1, 7, 2, 0, 0]) \<and>
   (\<exists>out. I3D_forward (I3D_init example_r3d_18 example_init NUM_CLASSES) example_clips = Inr out \<and>
      shape out = [2, 11])"
proof -
  have s: "shape example_clips = [2, 450, 3, 224, 224]" by (simp add: example_clips_def)
  from I3D_is_r3d_18_with_new_head_on_permuted_input
    [of example_r3d_18 example_init example_clips 2 450 3 224 224
      "I3D_init example_r3d_18 example_init NUM_CLASSES"] s
  obtain x' where x': "permute [0, 2, 1, 3, 4] example_clips = Inr x'"
      "shape x' = [2, 3, 450, 224, 224]"
      "\<forall>i j k y z. elems x' [i, k, j, y, z] = elems example_clips [i, j, k, y, z]"
      "\<forall>hid. features (model (I3D_init example_r3d_18 example_init NUM_CLASSES)) x' = Inr hid \<and>
            shape hid = [2, in_features (fc (example_r3d_18 ''KINETICS400_V1''))] \<longrightarrow>
            (\<exists>out. I3D_forward (I3D_init example_r3d_18 example_init NUM_CLASSES) example_clips
                 = Inr out \<and> shape out = [2, 11])"
    by blast
  have "features (model (I3D_init example_r3d_18 example_init NUM_CLASSES)) x' =
      Inr (Tensor [2, 512] (\<lambda>ix. 1))"
    using x'(2) by (simp add: I3D_init_def example_r3d_18_def Let_def)
  moreover have "in_features (fc (example_r3d_18 ''KINETICS400_V1'')) = 512"
    by (simp add: example_r3d_18_def)
  ultimately have "\<exists>out. I3D_forward (I3D_init example_r3d_18 example_init NUM_CLASSES)
      example_clips = Inr out \<and> shape out = [2, 11]"
    using x'(4) by simp
  with s x' show ?thesis by blast
qed

section \<open>C5: the label\<close>

text \<open>
  C5. Whenever \<open>__getitem__\<close> returns a pair for an index, the index addresses a row
  of the annotations and the label of the pair is the row's \<open>behavior_category\<close> minus 2.
\<close>

theorem getitem_label:
  assumes "snd (getitem ops ds fs idx) = Inr (clip, label)"
  shows "\<exists>r. iloc (annotations ds) idx = Inr r \<and> label = behavior_category r - 2"
  using assms by (auto simp: getitem_Inr_iff)

text \<open>
  On the example dataset, whose first row has category 5, index 0 returns a pair with
  label 3.
\<close>

theorem getitem_label_witness:
  "\<exists>clip. snd (getitem example_ops example_ds fs_second_only 0) = Inr (clip, 3) \<and>
     (\<exists>r. iloc (annotations example_ds) 0 = Inr r \<and> (3::int) = behavior_category r - 2)"
proof -
  from example_returns obtain clip where
    c: "snd (getitem example_ops example_ds fs_second_only 0) = Inr (clip, 3)" by blast
  from getitem_label [OF c] c show ?thesis by blast
qed

section \<open>C6: the accuracy\<close>



section \<open>C7: the loss\<close>



section \<open>C8: the shape of the clip\<close>

text \<open>
  C8. When the dataset is built with the module-level \<open>transform\<close>, every clip that
  \<open>__getitem__\<close> returns has shape \<open>[450, 3, 224, 224]\<close>, whichever frame files
  exist and whatever their height and width.
\<close>

theorem clip_shape_with_module_transform:
  assumes "self_transform ds = Some (transform ops)"
    and "snd (getitem ops ds fs idx) = Inr (clip, label)"
  shows "shape clip = [450, 3, 224, 224]"
proof -
  from assms(2) obtain r :: row where
    c: "getitem_clip ops (self_transform ds) fs (video_name r) (keyframe r) = Inr clip"
    by (auto simp: getitem_Inr_iff)
  then obtain frames where
    fr: "list_all2 (\<lambda>i f. frame_at ops (self_transform ds) fs (video_name r) i = Inr f)
           [0..<450] frames"
    and st: "torch_stack frames = Inr clip"
    by (auto simp: getitem_clip_Inr_iff)
  from fr have len: "length frames = 450" by (auto dest: list_all2_lengthD)
  from all2_upt_nth [OF fr, of 0]
  have "frame_at ops (self_transform ds) fs (video_name r) 0 = Inr (frames ! 0)"
    by simp
  then have "frame_at ops (Some (transform ops)) fs (video_name r) 0 = Inr (frames ! 0)"
    using assms(1) by simp
  then have "shape (frames ! 0) = [3, IMG_HEIGHT, IMG_WIDTH]"
    by (auto simp: frame_at_Inr dest: frame_of_transformed_shape)
  moreover from len have "hd frames = frames ! 0" by (cases frames) auto
  ultimately show ?thesis
    using torch_stack_Inr(2) [OF st] len by (simp add: IMG_HEIGHT_def IMG_WIDTH_def)
qed

text \<open>
  On the example dataset, in a directory that holds only the second frame, a 480 by 640
  image, index 0 returns a clip of that shape.
\<close>

theorem clip_shape_with_module_transform_witness:
  "\<exists>clip label. snd (getitem example_ops example_ds fs_second_only 0) = Inr (clip, label) \<and>
     shape clip = [450, 3, 224, 224]"
proof -
  from example_returns obtain clip where
    c: "snd (getitem example_ops example_ds fs_second_only 0) = Inr (clip, 3)" by blast
  have "self_transform example_ds = Some (transform example_ops)"
    by (simp add: example_ds_def)
  from clip_shape_with_module_transform [OF this c] c show ?thesis by blast
qed

section \<open>C9: the length of the dataset\<close>

text \<open>
  C9. When \<open>__init__\<close> succeeds, \<open>__len__\<close> is the number of data lines of the
  annotation file: its lines after the first, which is dropped unread, that are not
  blank. Data line \<open>i\<close> is row \<open>i\<close> of the dataset and index \<open>i\<close> addresses it. The
  row maps to one clip/label pair, its clip of shape \<open>450 # s\<close> with its
  \<open>behavior_category\<close> minus 2, when \<open>int(keyframe * 30)\<close> does not raise and the
  body of the loop yields a tensor of one common shape \<open>s\<close> at each of the 450 counters.
\<close>

theorem len_counts_lines_after_header:
  assumes "VideoDataset_init parse blank annotations_file tr = Inr (out, ds)"
  shows "len ds = length (data_lines blank annotations_file) \<and>
         length (data_lines blank annotations_file) =
           length (filter (\<lambda>l. \<not> blank l) (tl annotations_file)) \<and>
         (\<forall>i<len ds.
            parse (data_lines blank annotations_file ! i) = Inr (annotations ds ! i) \<and>
            iloc (annotations ds) (int i) = Inr (annotations ds ! i) \<and>
            (py_int (float_mul_int (keyframe (annotations ds ! i)) 30) = Inr k \<and>
             (\<forall>j<450. \<exists>f. frame_at ops tr fs (video_name (annotations ds ! i)) j = Inr f \<and>
                         shape f = s) \<longrightarrow>
               (\<exists>clip. snd (getitem ops ds fs (int i)) =
                          Inr (clip, behavior_category (annotations ds ! i) - 2) \<and>
                        shape clip = 450 # s)))"
proof -
  from assms obtain rows where
    rows: "parse_rows parse (data_lines blank annotations_file) = Inr rows"
    and ds: "ds = \<lparr>annotations = rows, self_transform = tr\<rparr>"
    by (auto simp: VideoDataset_init_def read_csv_def Let_def split: sum.splits)
  from rows have all2:
    "list_all2 (\<lambda>l r. parse l = Inr r) (data_lines blank annotations_file) rows"
    by (simp add: parse_rows_Inr)
  then have len: "length rows = length (data_lines blank annotations_file)"
    by (auto dest: list_all2_lengthD)
  have 1: "len ds = length (data_lines blank annotations_file)"
    using len by (simp add: ds len_def)
  have 2: "length (data_lines blank annotations_file) =
      length (filter (\<lambda>l. \<not> blank l) (tl annotations_file))"
    by (simp add: data_lines_def drop_Suc)
  have 3: "parse (data_lines blank annotations_file ! i) = Inr (annotations ds ! i) \<and>
      iloc (annotations ds) (int i) = Inr (annotations ds ! i) \<and>
      (py_int (float_mul_int (keyframe (annotations ds ! i)) 30) = Inr k \<and>
       (\<forall>j<450. \<exists>f. frame_at ops tr fs (video_name (annotations ds ! i)) j = Inr f \<and>
                   shape f = s) \<longrightarrow>
         (\<exists>clip. snd (getitem ops ds fs (int i)) =
                    Inr (clip, behavior_category (annotations ds ! i) - 2) \<and>
                  shape clip = 450 # s))"
    if i: "i < len ds" for i
  proof (intro conjI impI)
    from i 1 have "i < length (data_lines blank annotations_file)" by simp
    from list_all2_nthD [OF all2 this]
    show "parse (data_lines blank annotations_file ! i) = Inr (annotations ds ! i)"
      by (simp add: ds)
    from i show il: "iloc (annotations ds) (int i) = Inr (annotations ds ! i)"
      by (simp add: len_def iloc_nat)
    assume h: "py_int (float_mul_int (keyframe (annotations ds ! i)) 30) = Inr k \<and>
       (\<forall>j<450. \<exists>f. frame_at ops tr fs (video_name (annotations ds ! i)) j = Inr f \<and>
                   shape f = s)"
    then have h1: "py_int (float_mul_int (keyframe (annotations ds ! i)) 30) = Inr k"
      and h2: "\<forall>j<450. \<exists>f. frame_at ops (self_transform ds) fs
                 (video_name (annotations ds ! i)) j = Inr f \<and> shape f = s"
      by (simp_all add: ds)
    from getitem_returns_stack [OF il h1 h2] obtain clip where
      "shape clip = 450 # s"
      "snd (getitem ops ds fs (int i)) = Inr (clip, behavior_category (annotations ds ! i) - 2)"
      by (elim exE conjE)
    then have "snd (getitem ops ds fs (int i)) =
        Inr (clip, behavior_category (annotations ds ! i) - 2) \<and> shape clip = 450 # s"
      by (intro conjI)
    then show "\<exists>clip. snd (getitem ops ds fs (int i)) =
        Inr (clip, behavior_category (annotations ds ! i) - 2) \<and> shape clip = 450 # s"
      by (intro exI)
  qed
  show ?thesis
  proof (rule conjI [OF 1], rule conjI [OF 2], rule allI, rule impI)
    fix i
    assume i: "i < len ds"
    show "parse (data_lines blank annotations_file ! i) = Inr (annotations ds ! i) \<and>
      iloc (annotations ds) (int i) = Inr (annotations ds ! i) \<and>
      (py_int (float_mul_int (keyframe (annotations ds ! i)) 30) = Inr k \<and>
       (\<forall>j<450. \<exists>f. frame_at ops tr fs (video_name (annotations ds ! i)) j = Inr f \<and>
                   shape f = s) \<longrightarrow>
         (\<exists>clip. snd (getitem ops ds fs (int i)) =
                    Inr (clip, behavior_category (annotations ds ! i) - 2) \<and>
                  shape clip = 450 # s))"
      by (rule 3 [OF i])
  qed
qed

text \<open>
  The example annotation file has four lines: the header, a record, a blank line and a
  record with an empty \<open>keyframe\<close> cell. The dataset has length 2, and index 0 maps to
  a clip of shape \<open>[450, 3, 224, 224]\<close> with the label 3.
\<close>

theorem len_counts_lines_after_header_witness:
  "VideoDataset_init example_parse example_blank example_csv (Some (transform example_ops)) =
     Inr ([''Label range: 5 to 5''], example_csv_ds) \<and>
   length example_csv = 4 \<and> len example_csv_ds = 2 \<and>
   iloc (annotations example_csv_ds) 0 = Inr example_row \<and>
   iloc (annotations example_csv_ds) 1 = Inr nan_row \<and>
   (\<exists>clip. snd (getitem example_ops example_csv_ds fs_second_only 0) = Inr (clip, 3) \<and>
      shape clip = [450, 3, IMG_HEIGHT, IMG_WIDTH])"
proof -
  have a: "annotations example_csv_ds ! 0 = example_row"
    "annotations example_csv_ds ! 1 = nan_row" "len example_csv_ds = 2"
    by (simp_all add: example_csv_ds_def len_def)
  have k: "py_int (float_mul_int (keyframe (annotations example_csv_ds ! 0)) 30) = Inr 60"
    by (simp add: a example_row_def float_60)
  have f: "\<forall>j<450. \<exists>f. frame_at example_ops (Some (transform example_ops)) fs_second_only
      (video_name (annotations example_csv_ds ! 0)) j = Inr f \<and> shape f = [3, IMG_HEIGHT, IMG_WIDTH]"
    using example_frame_at_second_only by (simp add: a example_row_def)
  from len_counts_lines_after_header [OF example_csv_init, where k = 60 and ops = example_ops
      and fs = fs_second_only and s = "[3, IMG_HEIGHT, IMG_WIDTH]"]
  have "\<forall>i<len example_csv_ds.
      iloc (annotations example_csv_ds) (int i) = Inr (annotations example_csv_ds ! i) \<and>
      (py_int (float_mul_int (keyframe (annotations example_csv_ds ! i)) 30) = Inr 60 \<and>
       (\<forall>j<450. \<exists>f. frame_at example_ops (Some (transform example_ops)) fs_second_only
           (video_name (annotations example_csv_ds ! i)) j = Inr f \<and>
           shape f = [3, IMG_HEIGHT, IMG_WIDTH]) \<longrightarrow>
         (\<exists>clip. snd (getitem example_ops example_csv_ds fs_second_only (int i)) =
                    Inr (clip, behavior_category (annotations example_csv_ds ! i) - 2) \<and>
                  shape clip = 450 # [3, IMG_HEIGHT, IMG_WIDTH]))"
    by blast
  from spec [OF this, of 0]
  have "iloc (annotations example_csv_ds) (int 0) = Inr (annotations example_csv_ds ! 0) \<and>
      (py_int (float_mul_int (keyframe (annotations example_csv_ds ! 0)) 30) = Inr 60 \<and>
       (\<forall>j<450. \<exists>f. frame_at example_ops (Some (transform example_ops)) fs_second_only
           (video_name (annotations example_csv_ds ! 0)) j = Inr f \<and>
           shape f = [3, IMG_HEIGHT, IMG_WIDTH]) \<longrightarrow>
         (\<exists>clip. snd (getitem example_ops example_csv_ds fs_second_only (int 0)) =
                    Inr (clip, behavior_category (annotations example_csv_ds ! 0) - 2) \<and>
                  shape clip = 450 # [3, IMG_HEIGHT, IMG_WIDTH]))"
    using a(3) by simp
  with k f have "\<exists>clip. snd (getitem example_ops example_csv_ds fs_second_only (int 0)) =
       Inr (clip, behavior_category (annotations example_csv_ds ! 0) - 2) \<and>
     shape clip = 450 # [3, IMG_HEIGHT, IMG_WIDTH]"
    by blast
  then have c: "\<exists>clip. snd (getitem example_ops example_csv_ds fs_second_only 0) = Inr (clip, 3) \<and>
      shape clip = [450, 3, IMG_HEIGHT, IMG_WIDTH]"
    by (simp add: a example_row_def)
  have i: "iloc (annotations example_csv_ds) 0 = Inr example_row"
    "iloc (annotations example_csv_ds) 1 = Inr nan_row"
    by (simp_all add: example_csv_ds_def iloc_def)
  have l: "length example_csv = 4" by (simp add: example_csv_def)
  from example_csv_init l a(3) i c show ?thesis by (intro conjI)
qed

text \<open>
  As stated for every row, C9 fails: the second row of the example file counts in
  \<open>__len__\<close>, and \<open>__getitem__\<close> raises \<open>ValueError\<close> at its index, so it maps to no
  clip/label pair.
\<close>

theorem nan_row_maps_to_no_pair:
  "VideoDataset_init example_parse example_blank example_csv (Some (transform example_ops)) =
     Inr ([''Label range: 5 to 5''], example_csv_ds) \<and>
   len example_csv_ds = 2 \<and>
   iloc (annotations example_csv_ds) 1 = Inr nan_row \<and>
   snd (getitem example_ops example_csv_ds fs_second_only 1) = Inl ValueError"
proof -
  have i: "iloc (annotations example_csv_ds) 1 = Inr nan_row"
    by (simp add: example_csv_ds_def iloc_def)
  have "getitem_clip example_ops (self_transform example_csv_ds) fs_second_only
      (video_name nan_row) (keyframe nan_row) = Inl ValueError"
    by (simp add: getitem_clip_unfold nan_row_def)
  with i have "snd (getitem example_ops example_csv_ds fs_second_only 1) = Inl ValueError"
    by (simp add: getitem_snd)
  moreover have "len example_csv_ds = 2" by (simp add: example_csv_ds_def len_def)
  ultimately show ?thesis using example_csv_init i by (intro conjI)
qed

section \<open>C10: labels out of range\<close>

text \<open>
  C10. When the row's \<open>behavior_category\<close> minus 2 is below 0 or at least
  \<open>NUM_CLASSES\<close>, and the clip of the row is built, \<open>__getitem__\<close> prints the line
  \<open>Invalid label ... at index ...\<close> and returns the clip with that label unchanged.
\<close>

theorem invalid_label_is_reported_and_returned:
  assumes "iloc (annotations ds) idx = Inr r"
    and "getitem_clip ops (self_transform ds) fs (video_name r) (keyframe r) = Inr clip"
    and "behavior_category r - 2 < 0 \<or> int NUM_CLASSES \<le> behavior_category r - 2"
  shows "getitem ops ds fs idx =
     ([''Invalid label '' @ str_int (behavior_category r - 2) @ '' at index '' @ str_int idx],
      Inr (clip, behavior_category r - 2))"
  using assms by (simp add: getitem_def Let_def)

text \<open>
  The third row of the example dataset has category 1: index 2 prints the line and
  returns the label \<open>-1\<close>.
\<close>

theorem invalid_label_is_reported_and_returned_witness:
  "\<exists>clip. getitem example_ops example_ds fs_second_only 2 =
     ([''Invalid label -1 at index 2''], Inr (clip, - 1))"
proof -
  have r: "iloc (annotations example_ds) 2 = Inr bad_label_row"
    by (simp add: example_ds_def iloc_def)
  from example_clip_returns [OF py_int_example] obtain clip where
    c: "getitem_clip example_ops (self_transform example_ds) fs_second_only
          (video_name bad_label_row) (keyframe bad_label_row) = Inr clip"
    by (auto simp: example_ds_def bad_label_row_def example_row_def)
  have "behavior_category bad_label_row - 2 < 0 \<or>
      int NUM_CLASSES \<le> behavior_category bad_label_row - 2"
    by (simp add: bad_label_row_def example_row_def)
  from invalid_label_is_reported_and_returned [OF r c this] show ?thesis
    by (auto simp: bad_label_row_def example_row_def str_int_examples)
qed

end
